theory Spec2Isabelle
  imports Main "HOL-Library.Sublist"
begin

section \<open>JavaScript values and string primitives used by the sources\<close>

text \<open>
  Strings are lists of characters. A field that may be missing from a JSON body or from
  the environment (\<^verbatim>\<open>undefined\<close>, \<^verbatim>\<open>null\<close>) is a \<open>string option\<close>; JavaScript
  truthiness of such a value is \<open>truthy\<close>: present and not the empty string.
\<close>

definition truthy :: "string option \<Rightarrow> bool" where
  "truthy v = (case v of None \<Rightarrow> False | Some s \<Rightarrow> s \<noteq> [])"

text \<open>\<^verbatim>\<open>a || b\<close> on such values.\<close>

definition js_or :: "string option \<Rightarrow> string option \<Rightarrow> string option" where
  "js_or a b = (if truthy a then a else b)"

text \<open>\<^verbatim>\<open>a || 'literal'\<close>: the result is always a string.\<close>

definition or_default :: "string option \<Rightarrow> string \<Rightarrow> string" where
  "or_default a d = (case a of None \<Rightarrow> d | Some s \<Rightarrow> if s = [] then d else s)"

definition newline :: char where
  "newline = CHR 0x0A"

text \<open>
  White space removed by \<^verbatim>\<open>String.prototype.trim\<close> and skipped by \<^verbatim>\<open>parseInt\<close>: tab,
  line feed, vertical tab, form feed, carriage return and space (the white space and line
  terminators of the ASCII range).
\<close>

definition is_ws :: "char \<Rightarrow> bool" where
  "is_ws c = (c \<in> {CHR 0x09, CHR 0x0A, CHR 0x0B, CHR 0x0C, CHR 0x0D, CHR '' ''})"

definition trim :: "string \<Rightarrow> string" where
  "trim s = rev (dropWhile is_ws (rev (dropWhile is_ws s)))"

text \<open>
  \<^verbatim>\<open>s.split(sep)\<close> for a string separator: the pieces between the non-overlapping
  occurrences of \<open>sep\<close>, found from left to right. \<open>split_from sep cur s\<close> has read \<open>cur\<close>
  since the last separator. With the empty separator JavaScript splits into single
  characters.
\<close>

fun split_from :: "string \<Rightarrow> string \<Rightarrow> string \<Rightarrow> string list" where
  "split_from sep cur [] = [cur]"
| "split_from sep cur (c # cs) =
     (if sep \<noteq> [] \<and> prefix sep (c # cs)
      then cur # split_from sep [] (drop (length sep - 1) cs)
      else split_from sep (cur @ [c]) cs)"

definition split :: "string \<Rightarrow> string \<Rightarrow> string list" where
  "split sep s = (if sep = [] then map (\<lambda>c. [c]) s else split_from sep [] s)"

section \<open>JavaScript numbers: binary64 arithmetic\<close>

text \<open>
  A JavaScript number is an IEEE 754 binary64 value: \<open>Finite m e\<close> is the finite value
  \<open>m * 2 ^ e\<close> (a double has \<open>\<bar>m\<bar> < 2 ^ 53\<close> and \<open>- 1074 \<le> e\<close>), besides the two
  infinities and \<^verbatim>\<open>NaN\<close>. The sign of zero is not kept; no operation used here tells
  the two zeros apart.
\<close>

datatype js_double = Finite int int | PInf | NInf | NaN

text \<open>The number of binary digits of a natural number.\<close>

fun bitlength :: "nat \<Rightarrow> nat" where
  "bitlength n = (if n = 0 then 0 else Suc (bitlength (n div 2)))"

declare bitlength.simps [simp del]

text \<open>The integer part of the binary logarithm of \<open>a / q\<close>, for positive \<open>a\<close> and \<open>q\<close>.\<close>

definition floor_log2_ratio :: "nat \<Rightarrow> nat \<Rightarrow> int" where
  "floor_log2_ratio a q =
     (let d = int (bitlength a) - int (bitlength q)
      in if q * 2 ^ nat d \<le> a * 2 ^ nat (- d) then d else d - 1)"

text \<open>
  The double nearest to \<open>(p / q) * 2 ^ e\<close>, for \<open>q > 0\<close>, ties to the even significand
  (the rounding of every binary64 operation). \<open>ulp_exponent\<close> is the exponent of the
  last place of the result, at least that of the subnormal numbers; \<open>round_half_even n d\<close>
  is the integer nearest to \<open>n / d\<close>; the rounded significand is at most \<open>2 ^ 53\<close>; a
  magnitude of \<open>2 ^ 1024\<close> or more, that is the significand \<open>2 ^ 53\<close> at the last
  exponent 971 or any larger exponent, is an infinity.
\<close>

definition ulp_exponent :: "nat \<Rightarrow> nat \<Rightarrow> int \<Rightarrow> int" where
  "ulp_exponent a q e = max (e + floor_log2_ratio a q - 52) (- 1074)"

definition round_half_even :: "nat \<Rightarrow> nat \<Rightarrow> nat" where
  "round_half_even n d =
     (if 2 * (n mod d) < d then n div d
      else if d < 2 * (n mod d) then n div d + 1
      else if even (n div d) then n div d
      else n div d + 1)"

definition significand :: "nat \<Rightarrow> nat \<Rightarrow> int \<Rightarrow> int \<Rightarrow> nat" where
  "significand a q e u = round_half_even (a * 2 ^ nat (e - u)) (q * 2 ^ nat (u - e))"

definition pack :: "bool \<Rightarrow> nat \<Rightarrow> int \<Rightarrow> js_double" where
  "pack positive g u =
     (if 971 < u \<or> (u = 971 \<and> 2 ^ 53 \<le> g) then (if positive then PInf else NInf)
      else Finite (if positive then int g else - int g) u)"

definition round_to_double :: "int \<Rightarrow> nat \<Rightarrow> int \<Rightarrow> js_double" where
  "round_to_double p q e =
     (if p = 0 then Finite 0 0
      else pack (0 < p)
             (significand (nat \<bar>p\<bar>) q e (ulp_exponent (nat \<bar>p\<bar>) q e))
             (ulp_exponent (nat \<bar>p\<bar>) q e))"

text \<open>\<^verbatim>\<open>x + y\<close> on two numbers.\<close>

fun fadd :: "js_double \<Rightarrow> js_double \<Rightarrow> js_double" where
  "fadd (Finite m1 e1) (Finite m2 e2) =
     round_to_double (m1 * 2 ^ nat (e1 - min e1 e2) + m2 * 2 ^ nat (e2 - min e1 e2)) 1 (min e1 e2)"
| "fadd NaN y = NaN"
| "fadd x NaN = NaN"
| "fadd PInf NInf = NaN"
| "fadd NInf PInf = NaN"
| "fadd PInf y = PInf"
| "fadd x PInf = PInf"
| "fadd NInf y = NInf"
| "fadd x NInf = NInf"

text \<open>
  \<^verbatim>\<open>x / n\<close> for a count \<open>n\<close>, which is a double itself as long as it is below
  \<open>2 ^ 53\<close>.
\<close>

fun fdiv :: "js_double \<Rightarrow> nat \<Rightarrow> js_double" where
  "fdiv (Finite m e) n =
     (if n = 0 then (if 0 < m then PInf else if m < 0 then NInf else NaN)
      else round_to_double m n e)"
| "fdiv PInf n = PInf"
| "fdiv NInf n = NInf"
| "fdiv NaN n = NaN"

text \<open>\<^verbatim>\<open>x < y\<close>; \<^verbatim>\<open>x > y\<close> is \<open>flt y x\<close>. A comparison with \<^verbatim>\<open>NaN\<close> is false.\<close>

fun flt :: "js_double \<Rightarrow> js_double \<Rightarrow> bool" where
  "flt (Finite m1 e1) (Finite m2 e2) =
     (m1 * 2 ^ nat (e1 - min e1 e2) < m2 * 2 ^ nat (e2 - min e1 e2))"
| "flt NaN y = False"
| "flt x NaN = False"
| "flt x NInf = False"
| "flt NInf y = True"
| "flt PInf y = False"
| "flt x PInf = True"

text \<open>The doubles that the literals \<^verbatim>\<open>0.2\<close> and \<^verbatim>\<open>-0.2\<close> denote.\<close>

definition double_0_2 :: js_double where
  "double_0_2 = Finite 7205759403792794 (- 55)"

definition double_minus_0_2 :: js_double where
  "double_minus_0_2 = Finite (- 7205759403792794) (- 55)"

section \<open>The stream function (twilio-functions/stream.js)\<close>

text \<open>The function's \<^verbatim>\<open>context\<close>: only \<^verbatim>\<open>GOOGLE_API_KEY\<close> is read.\<close>

record fn_context =
  GOOGLE_API_KEY :: "string option"

text \<open>
  A WebSocket frame after \<^verbatim>\<open>JSON.parse\<close>: either parsing (or reading a field of the
  parsed value) throws, and the handler's outer \<^verbatim>\<open>catch\<close> drops the frame, or it is an object
  of which the handler reads \<^verbatim>\<open>input\<close>, \<^verbatim>\<open>text\<close> and \<^verbatim>\<open>detectedLanguage\<close>.
\<close>

record ws_message =
  msg_input :: "string option"
  msg_text :: "string option"
  msg_detectedLanguage :: "string option"

datatype frame = Malformed | Frame ws_message

text \<open>
  The outcome of one \<^verbatim>\<open>analyzeSentiment\<close> call: a response with a document sentiment
  score, a response without one, or a rejected request. The score is a JavaScript
  number.
\<close>

datatype score_result = Scored js_double | NoSentiment | ScoreFailed

text \<open>The variables the handlers close over.\<close>

record stream_state =
  transcript :: string
  detectedLanguage :: string
  finalSentimentScore :: js_double
  sentimentCount :: nat

definition initial_state :: stream_state where
  "initial_state =
     \<lparr>transcript = [], detectedLanguage = ''en'', finalSentimentScore = Finite 0 0, sentimentCount = 0\<rparr>"

text \<open>The payload handed to \<^verbatim>\<open>callback\<close> when the socket closes.\<close>

record summary =
  sum_text :: string
  sum_transcript :: string
  sum_sentiment :: string
  sum_detectedLanguage :: string

text \<open>
  \<^verbatim>\<open>ws.on('message')\<close> up to its \<^verbatim>\<open>await\<close>: the transcript and the language are updated at
  once. The second component tells whether a sentiment request was sent.
\<close>

definition ws_on_message :: "fn_context \<Rightarrow> stream_state \<Rightarrow> frame \<Rightarrow> stream_state \<times> bool" where
  "ws_on_message ctx s f =
     (case f of
        Malformed \<Rightarrow> (s, False)
      | Frame m \<Rightarrow>
          (let t1 = (case msg_input m of
                       Some i \<Rightarrow> if i \<noteq> [] then transcript s @ ''Caller: '' @ i @ [newline]
                                 else transcript s
                     | None \<Rightarrow> transcript s);
               t2 = (case msg_text m of
                       Some t \<Rightarrow> if t \<noteq> [] then t1 @ ''Receptionist: '' @ t @ [newline] else t1
                     | None \<Rightarrow> t1);
               l = or_default (msg_detectedLanguage m) (detectedLanguage s)
           in (s\<lparr>transcript := t2, detectedLanguage := l\<rparr>,
               truthy (msg_input m) \<and> truthy (GOOGLE_API_KEY ctx))))"

text \<open>The rest of \<^verbatim>\<open>ws.on('message')\<close>, run when the sentiment request settles.\<close>

definition ws_on_score :: "stream_state \<Rightarrow> score_result \<Rightarrow> stream_state" where
  "ws_on_score s r =
     (case r of
        Scored x \<Rightarrow> s\<lparr>finalSentimentScore := fadd (finalSentimentScore s) x,
                       sentimentCount := sentimentCount s + 1\<rparr>
      | NoSentiment \<Rightarrow> s
      | ScoreFailed \<Rightarrow> s)"

text \<open>\<^verbatim>\<open>ws.on('close')\<close>: the sentiment category, the last agent response, the callback payload.\<close>

definition final_sentiment :: "stream_state \<Rightarrow> string" where
  "final_sentiment s =
     (if sentimentCount s > 0
      then (let avgScore = fdiv (finalSentimentScore s) (sentimentCount s)
            in if flt double_0_2 avgScore then ''positive''
               else if flt avgScore double_minus_0_2 then ''negative''
               else ''neutral'')
      else ''neutral'')"

definition lastAgentResponse :: "string \<Rightarrow> string" where
  "lastAgentResponse t =
     hd (split [newline] (last (split (newline # ''Receptionist: '') (trim t))))"

definition ws_on_close :: "stream_state \<Rightarrow> summary" where
  "ws_on_close s =
     \<lparr>sum_text = lastAgentResponse (transcript s),
      sum_transcript = transcript s,
      sum_sentiment = final_sentiment s,
      sum_detectedLanguage = detectedLanguage s\<rparr>"

text \<open>
  The event loop runs one handler segment at a time. What it delivers to this function is
  a sequence of: a frame, the settling of an earlier sentiment request, the close of the
  socket. The run keeps the closed-over variables and the payloads passed to \<^verbatim>\<open>callback\<close>.
\<close>

datatype ws_event = Message frame | ScoreReturn score_result | Close

fun ws_step :: "fn_context \<Rightarrow> stream_state \<times> summary list \<Rightarrow> ws_event \<Rightarrow> stream_state \<times> summary list" where
  "ws_step ctx (s, out) (Message f) = (fst (ws_on_message ctx s f), out)"
| "ws_step ctx (s, out) (ScoreReturn r) = (ws_on_score s r, out)"
| "ws_step ctx (s, out) Close = (s, out @ [ws_on_close s])"

definition ws_run :: "fn_context \<Rightarrow> ws_event list \<Rightarrow> stream_state \<times> summary list" where
  "ws_run ctx evs = foldl (ws_step ctx) (initial_state, []) evs"

text \<open>
  Sentiment requests sent and not yet settled after a sequence of events (requests are
  sent by frames with a caller input, when the API key is set).
\<close>

fun in_flight :: "fn_context \<Rightarrow> ws_event list \<Rightarrow> int" where
  "in_flight ctx [] = 0"
| "in_flight ctx (Message f # evs) =
     (if snd (ws_on_message ctx initial_state f) then 1 else 0) + in_flight ctx evs"
| "in_flight ctx (ScoreReturn r # evs) = in_flight ctx evs - 1"
| "in_flight ctx (Close # evs) = in_flight ctx evs"

text \<open>The scores of the sentiment requests that settled with a score, in order.\<close>

fun returned_scores :: "ws_event list \<Rightarrow> js_double list" where
  "returned_scores [] = []"
| "returned_scores (ScoreReturn (Scored x) # evs) = x # returned_scores evs"
| "returned_scores (e # evs) = returned_scores evs"

text \<open>The doubles of the literals \<^verbatim>\<open>0.1\<close>, \<^verbatim>\<open>0.3\<close>, \<^verbatim>\<open>0.9\<close> and \<^verbatim>\<open>-0.5\<close>.\<close>

definition double_0_1 :: js_double where
  "double_0_1 = Finite 7205759403792794 (- 56)"

definition double_0_3 :: js_double where
  "double_0_3 = Finite 5404319552844595 (- 54)"

definition double_0_9 :: js_double where
  "double_0_9 = Finite 8106479329266893 (- 53)"

definition double_minus_0_5 :: js_double where
  "double_minus_0_5 = Finite (- 4503599627370496) (- 53)"

definition ctx_scoring :: fn_context where
  "ctx_scoring = \<lparr>GOOGLE_API_KEY = Some ''key''\<rparr>"

definition caller_says :: "string \<Rightarrow> ws_event" where
  "caller_says t = Message (Frame \<lparr>msg_input = Some t, msg_text = None, msg_detectedLanguage = None\<rparr>)"

definition agent_says :: "string \<Rightarrow> ws_event" where
  "agent_says t = Message (Frame \<lparr>msg_input = None, msg_text = Some t, msg_detectedLanguage = None\<rparr>)"

section \<open>The voice endpoint (express-app/server.js)\<close>

subsection \<open>Numbers, numerals and times of day\<close>

definition is_digit :: "char \<Rightarrow> bool" where
  "is_digit c = (48 \<le> (of_char c :: nat) \<and> (of_char c :: nat) \<le> 57)"

definition dec :: "string \<Rightarrow> nat" where
  "dec s = foldl (\<lambda>a c. 10 * a + ((of_char c :: nat) - 48)) 0 s"

text \<open>\<^verbatim>\<open>String(n)\<close> for a natural number.\<close>

definition digit_char :: "nat \<Rightarrow> char" where
  "digit_char d = ''0123456789'' ! d"

fun dec_string :: "nat \<Rightarrow> string" where
  "dec_string n =
     (if n < 10 then [digit_char n] else dec_string (n div 10) @ [digit_char (n mod 10)])"

declare dec_string.simps [simp del]

text \<open>
  \<^verbatim>\<open>Number(s)\<close> on the strings that reach it here, the pieces of an \<^verbatim>\<open>HH:MM\<close> time and
  concatenations of decimal numerals: a string of decimal digits is its value, the
  empty string is 0; \<open>None\<close> is \<^verbatim>\<open>NaN\<close>. Numerals with a sign, a fraction, an exponent
  or surrounding blanks do not occur and are not modelled.
\<close>

definition to_number :: "string \<Rightarrow> nat option" where
  "to_number s = (if list_all is_digit s then Some (dec s) else None)"

text \<open>
  \<^verbatim>\<open>parseInt(s, 10)\<close>: leading white space, an optional sign, then the longest run of
  digits; \<open>None\<close> is \<^verbatim>\<open>NaN\<close>.
\<close>

definition parseInt10 :: "string \<Rightarrow> int option" where
  "parseInt10 s =
     (let s1 = dropWhile is_ws s;
          neg = (case s1 of [] \<Rightarrow> False | c # r \<Rightarrow> c = CHR ''-'');
          s2 = (case s1 of [] \<Rightarrow> [] | c # r \<Rightarrow> if c = CHR ''-'' \<or> c = CHR ''+'' then r else s1);
          ds = takeWhile is_digit s2
      in if ds = [] then None
         else Some (if neg then - int (dec ds) else int (dec ds)))"

text \<open>
  The second operand of \<^verbatim>\<open>minute + minutesToAdd\<close>. \<^verbatim>\<open>DEFAULT_APPOINTMENT_DURATION\<close> is
  destructured from \<^verbatim>\<open>process.env\<close> with the default \<^verbatim>\<open>30\<close>: it is the number 30 when the
  variable is unset, and the variable's string when it is set. \<^verbatim>\<open>+\<close> adds two numbers and
  concatenates when one operand is a string.
\<close>

datatype js_value = JNum nat | JStr string

definition js_plus :: "nat \<Rightarrow> js_value \<Rightarrow> js_value" where
  "js_plus m v = (case v of JNum d \<Rightarrow> JNum (m + d) | JStr s \<Rightarrow> JStr (dec_string m @ s))"

definition js_to_number :: "js_value \<Rightarrow> nat option" where
  "js_to_number v = (case v of JNum n \<Rightarrow> Some n | JStr s \<Rightarrow> to_number s)"

text \<open>
  An instant (a \<^verbatim>\<open>Date\<close>) is its number of milliseconds since the epoch. Local time is UTC
  plus a fixed offset in minutes (no daylight-saving change is modelled).
  \<^verbatim>\<open>toISOString().split('T')[0]\<close> is the UTC calendar day; it is kept as the day number, of
  which the \<^verbatim>\<open>YYYY-MM-DD\<close> text is an injective rendering.
  \<^verbatim>\<open>toLocaleTimeString('en-US', {hour: '2-digit', minute: '2-digit', hour12: false})\<close> is the
  local time of day as \<^verbatim>\<open>HH:MM\<close>, hours 00 to 23.
\<close>

definition utc_day :: "int \<Rightarrow> int" where
  "utc_day ms = ms div 86400000"

definition local_minute_of_day :: "int \<Rightarrow> int \<Rightarrow> nat" where
  "local_minute_of_day tz ms = nat ((ms div 60000 + tz) mod 1440)"

definition two_digits :: "nat \<Rightarrow> string" where
  "two_digits n = (if n < 10 then CHR ''0'' # dec_string n else dec_string n)"

definition hhmm :: "nat \<Rightarrow> string" where
  "hhmm m = two_digits (m div 60 mod 24) @ '':'' @ two_digits (m mod 60)"

text \<open>
  \<^verbatim>\<open>addMinutesToTime(time, minutesToAdd)\<close>: \<^verbatim>\<open>setHours(hour, minute + minutesToAdd, 0, 0)\<close> on
  today's date, then the local time of day of the result. A \<^verbatim>\<open>NaN\<close> argument gives an
  invalid date, which prints as \<^verbatim>\<open>Invalid Date\<close>. Nothing in the \<^verbatim>\<open>try\<close> block throws on a
  string, so the \<^verbatim>\<open>catch\<close> branch is not reached.
\<close>

definition addMinutesToTime :: "string \<Rightarrow> js_value \<Rightarrow> string" where
  "addMinutesToTime time minutesToAdd =
     (case split '':'' time of
        h # m # rest \<Rightarrow>
          (case (to_number h, to_number m) of
             (Some hour, Some minute) \<Rightarrow>
               (case js_to_number (js_plus minute minutesToAdd) of
                  Some mins \<Rightarrow> hhmm (hour * 60 + mins)
                | None \<Rightarrow> ''Invalid Date'')
           | _ \<Rightarrow> ''Invalid Date'')
      | _ \<Rightarrow> ''Invalid Date'')"

subsection \<open>Data\<close>

text \<open>A thrown error is its \<^verbatim>\<open>message\<close>.\<close>

type_synonym js_error = string

record customer =
  cust_id :: string
  cust_email :: string

record interaction =
  int_transcript :: "string option"
  int_detectedLanguage :: "string option"
  int_sentiment :: "string option"

text \<open>The fields of \<^verbatim>\<open>req.body\<close> that the handler reads.\<close>

record request =
  caller_id :: "string option"
  From :: "string option"
  call_id :: "string option"
  CallSid :: "string option"
  duration :: "string option"
  CallDuration :: "string option"
  ultravox_transcription :: "string option"
  SpeechResult :: "string option"
  interaction_result :: "interaction option"

text \<open>
  The collaborators. A call that throws or rejects is \<open>Inl\<close> of the error. \<open>detect\<close>
  gives the language of the (first) detection; \<open>redis_get\<close> gives \<open>None\<close> for a missing
  key.
\<close>

record translation_client =
  detect :: "string \<Rightarrow> js_error + string"
  translate :: "string \<Rightarrow> string \<Rightarrow> string \<Rightarrow> js_error + string"

record redis_client =
  redis_get :: "string \<Rightarrow> js_error + string option"
  redis_set :: "string \<Rightarrow> string \<Rightarrow> nat \<Rightarrow> js_error + unit"

record tts_data =
  audio_url :: "string option"
  audio_id :: "string option"

text \<open>The text \<^verbatim>\<open>${startDate} ${time}:00\<close>: the day and the time of day.\<close>

record ea_datetime =
  dt_date :: int
  dt_time :: string

record appointment_request =
  ap_start :: ea_datetime
  ap_end :: ea_datetime
  ap_notes :: string
  ap_customerId :: string
  ap_serviceId :: string
  ap_providerId :: nat

text \<open>The document added to \<^verbatim>\<open>call_analytics\<close> (the server timestamp is left out).\<close>

record analytics_record =
  subscriberEmail :: string
  callId :: string
  an_duration :: "int option"
  an_sentiment :: string
  an_transcript :: string
  an_detectedLanguage :: string
  appointmentBooked :: bool
  appointmentId :: "string option"
  appointmentTime :: "int option"
  failureReason :: "string option"

text \<open>
  The configuration and the collaborators of one request. \<open>firestore\<close> tells, for a
  document, whether the promise of \<^verbatim>\<open>add\<close> resolves (\<open>True\<close>) or rejects; \<^verbatim>\<open>add\<close>
  itself returns that promise for every document built here. \<open>ea_post\<close> gives the
  \<^verbatim>\<open>id\<close> of the scheduler's response. \<open>chrono_parse\<close>
  gives the start instants of the results of \<^verbatim>\<open>chrono.parse(text, new Date(), {forwardDate: true})\<close>.
  \<open>toLocaleDateString\<close> and \<open>toLocaleTimeString\<close> take the language tag and the instant
  and throw on a tag that is not a locale. \<^verbatim>\<open>DEFAULT_APPOINTMENT_DURATION\<close>, when set, is the
  decimal numeral of the given number.
\<close>

record env =
  translationClient :: "translation_client option"
  db :: "(string \<Rightarrow> js_error + customer list) option"
  redis :: "redis_client option"
  firestore :: "(analytics_record \<Rightarrow> bool) option"
  EASY_APPOINTMENTS_URL :: "string option"
  EASY_APPOINTMENTS_API_KEY :: "string option"
  DEFAULT_APPOINTMENT_SERVICE_ID :: "string option"
  DEFAULT_APPOINTMENT_DURATION :: "nat option"
  ULTRAVOX_TTS_URL :: "string option"
  tts_post :: "string \<Rightarrow> string \<Rightarrow> js_error + tts_data"
  ea_post :: "appointment_request \<Rightarrow> js_error + string"
  chrono_parse :: "string \<Rightarrow> js_error + int list"
  toLocaleDateString :: "string \<Rightarrow> int \<Rightarrow> js_error + string"
  toLocaleTimeString :: "string \<Rightarrow> int \<Rightarrow> js_error + string"
  tz_offset :: int

text \<open>
  What one request does, in order: the calls to the collaborators, the response sent
  with \<^verbatim>\<open>res.status(s).json({voiceResponse})\<close>, the analytics document added and the error
  logged by the \<^verbatim>\<open>catch\<close> of a rejected \<^verbatim>\<open>add\<close>.
\<close>

datatype event =
    is_DbQuery: DbQuery string
  | is_RedisGet: RedisGet string
  | is_RedisSet: RedisSet string string nat
  | is_Detect: Detect string
  | is_Translate: Translate string string string
  | is_ChronoParse: ChronoParse string
  | is_SchedulerPost: SchedulerPost appointment_request
  | is_Respond: Respond nat string
  | is_AnalyticsAdd: AnalyticsAdd analytics_record
  | is_AnalyticsError: AnalyticsError

subsection \<open>Helper functions of the server\<close>

text \<open>The string of a value known to be truthy.\<close>

definition str_of :: "string option \<Rightarrow> string" where
  "str_of v = (case v of None \<Rightarrow> [] | Some s \<Rightarrow> s)"

definition ultravoxTextToSpeech :: "env \<Rightarrow> string \<Rightarrow> string \<Rightarrow> string" where
  "ultravoxTextToSpeech e text language =
     (if \<not> truthy (ULTRAVOX_TTS_URL e)
      then ''placeholder_audio_for_'' @ language @ ''_'' @ take 10 text @ ''.mp3''
      else (case tts_post e text language of
              Inr d \<Rightarrow> or_default (audio_url d) (or_default (audio_id d) ''error_getting_audio_url'')
            | Inl err \<Rightarrow> ''error_generating_tts_'' @ language))"

definition translateText :: "env \<Rightarrow> string \<Rightarrow> string \<Rightarrow> string \<Rightarrow> event list \<times> string" where
  "translateText e text sourceLang targetLang =
     (case translationClient e of
        None \<Rightarrow> ([], text)
      | Some tc \<Rightarrow>
          if text = [] \<or> sourceLang = targetLang then ([], text)
          else (case translate tc text sourceLang targetLang of
                  Inr translation \<Rightarrow> ([Translate text sourceLang targetLang], translation)
                | Inl err \<Rightarrow> ([Translate text sourceLang targetLang], text)))"

subsection \<open>The request handler, step by step\<close>

text \<open>Step 1: the fields extracted from the body.\<close>

definition phoneNumber :: "request \<Rightarrow> string option" where
  "phoneNumber req = js_or (caller_id req) (From req)"

definition callId_of :: "request \<Rightarrow> string" where
  "callId_of req = or_default (js_or (call_id req) (CallSid req)) ''N/A''"

definition duration_of :: "request \<Rightarrow> int option" where
  "duration_of req = parseInt10 (or_default (js_or (duration req) (CallDuration req)) ''0'')"

definition speechResult :: "request \<Rightarrow> string option" where
  "speechResult req = js_or (ultravox_transcription req) (SpeechResult req)"

definition transcript_of :: "request \<Rightarrow> string" where
  "transcript_of req =
     or_default (case interaction_result req of None \<Rightarrow> None | Some i \<Rightarrow> int_transcript i)
       (''Caller: '' @ or_default (speechResult req) ''N/A'' @ [newline])"

definition languageHint :: "request \<Rightarrow> string option" where
  "languageHint req = (case interaction_result req of None \<Rightarrow> None | Some i \<Rightarrow> int_detectedLanguage i)"

definition sentiment_of :: "request \<Rightarrow> string" where
  "sentiment_of req =
     or_default (case interaction_result req of None \<Rightarrow> None | Some i \<Rightarrow> int_sentiment i) ''neutral''"

text \<open>
  Step 3: the customer. \<open>None\<close> in the second component means that the handler has
  responded and returned.
\<close>

definition demo_customer :: customer where
  "demo_customer = \<lparr>cust_id = ''demo_customer'', cust_email = ''demo@example.com''\<rparr>"

definition getCustomer :: "env \<Rightarrow> string \<Rightarrow> string option \<Rightarrow> event list \<times> customer option" where
  "getCustomer e phone hint =
     (case db e of
        Some query \<Rightarrow>
          (case query phone of
             Inr rows \<Rightarrow>
               (case rows of
                  c # cs \<Rightarrow> ([DbQuery phone], Some c)
                | [] \<Rightarrow>
                    ([DbQuery phone,
                      Respond 200 (ultravoxTextToSpeech e
                        ''Sorry, we could not find your record in our system.'' (or_default hint ''en''))],
                     None))
           | Inl dbError \<Rightarrow>
               ([DbQuery phone,
                 Respond 500 (ultravoxTextToSpeech e
                   ''Sorry, we encountered a database error. Please try again later.''
                   (or_default hint ''en''))],
                None))
      | None \<Rightarrow> ([], Some demo_customer))"

text \<open>Step 4: the language. The detection and the write to the cache, inside the \<^verbatim>\<open>try\<close>.\<close>

definition detectAndCache :: "env \<Rightarrow> translation_client \<Rightarrow> string \<Rightarrow> string \<Rightarrow> event list \<times> string" where
  "detectAndCache e tc text cacheKey =
     (case detect tc text of
        Inl langError \<Rightarrow> ([Detect text], ''en'')
      | Inr l \<Rightarrow>
          (case redis e of
             Some r \<Rightarrow>
               if l \<noteq> []
               then (case redis_set r cacheKey l 3600 of
                       Inl langError \<Rightarrow> ([Detect text, RedisSet cacheKey l 3600], ''en'')
                     | Inr u \<Rightarrow> ([Detect text, RedisSet cacheKey l 3600], l))
               else ([Detect text], l)
           | None \<Rightarrow> ([Detect text], l)))"

definition lookupOrDetect :: "env \<Rightarrow> translation_client \<Rightarrow> string \<Rightarrow> event list \<times> string" where
  "lookupOrDetect e tc text =
     (let cacheKey = ''lang:'' @ text
      in case redis e of
           None \<Rightarrow> detectAndCache e tc text cacheKey
         | Some r \<Rightarrow>
             (case redis_get r cacheKey of
                Inl langError \<Rightarrow> ([RedisGet cacheKey], ''en'')
              | Inr cached \<Rightarrow>
                  if truthy cached then ([RedisGet cacheKey], str_of cached)
                  else (RedisGet cacheKey # fst (detectAndCache e tc text cacheKey),
                        snd (detectAndCache e tc text cacheKey))))"

definition detectLanguage :: "env \<Rightarrow> string option \<Rightarrow> string option \<Rightarrow> event list \<times> string" where
  "detectLanguage e hint speech =
     (case translationClient e of
        Some tc \<Rightarrow>
          if \<not> truthy hint \<and> truthy speech then lookupOrDetect e tc (str_of speech)
          else if \<not> truthy hint then ([], ''en'')
          else ([], str_of hint)
      | None \<Rightarrow> if \<not> truthy hint then ([], ''en'') else ([], str_of hint))"

text \<open>Step 5: the text to parse.\<close>

definition translateForParsing :: "env \<Rightarrow> string option \<Rightarrow> string \<Rightarrow> event list \<times> string option" where
  "translateForParsing e speech lang =
     (if truthy speech \<and> lang \<noteq> ''en''
      then (fst (translateText e (str_of speech) lang ''en''),
            Some (snd (translateText e (str_of speech) lang ''en'')))
      else ([], speech))"

text \<open>Step 6: the start of the appointment.\<close>

definition parseAppointmentTime :: "env \<Rightarrow> string option \<Rightarrow> event list \<times> int option" where
  "parseAppointmentTime e textToParse =
     (if truthy textToParse
      then (case chrono_parse e (str_of textToParse) of
              Inr results \<Rightarrow>
                (case results of
                   i # rest \<Rightarrow> ([ChronoParse (str_of textToParse)], Some i)
                 | [] \<Rightarrow> ([ChronoParse (str_of textToParse)], None))
            | Inl parseError \<Rightarrow> ([ChronoParse (str_of textToParse)], None))
      else ([], None))"

text \<open>Step 7d, 7f, 8a: the analytics document, added without waiting.\<close>

definition saveAnalytics :: "env \<Rightarrow> analytics_record \<Rightarrow> event list" where
  "saveAnalytics e doc =
     (case firestore e of
        None \<Rightarrow> []
      | Some add \<Rightarrow> if add doc then [AnalyticsAdd doc] else [AnalyticsAdd doc, AnalyticsError])"

definition analytics_doc ::
  "request \<Rightarrow> customer \<Rightarrow> string \<Rightarrow> bool \<Rightarrow> string option \<Rightarrow> int option \<Rightarrow> string option \<Rightarrow> analytics_record" where
  "analytics_doc req cust lang booked apptId apptTime reason =
     \<lparr>subscriberEmail = cust_email cust,
      callId = callId_of req,
      an_duration = duration_of req,
      an_sentiment = sentiment_of req,
      an_transcript = transcript_of req,
      an_detectedLanguage = lang,
      appointmentBooked = booked,
      appointmentId = apptId,
      appointmentTime = apptTime,
      failureReason = reason\<rparr>"

text \<open>Step 7a: the request sent to the scheduler.\<close>

definition minutesToAdd :: "env \<Rightarrow> js_value" where
  "minutesToAdd e = (case DEFAULT_APPOINTMENT_DURATION e of None \<Rightarrow> JNum 30 | Some n \<Rightarrow> JStr (dec_string n))"

definition service_id :: "env \<Rightarrow> string" where
  "service_id e = (case DEFAULT_APPOINTMENT_SERVICE_ID e of None \<Rightarrow> ''default_service'' | Some s \<Rightarrow> s)"

definition appointmentRequest :: "env \<Rightarrow> request \<Rightarrow> customer \<Rightarrow> int \<Rightarrow> appointment_request" where
  "appointmentRequest e req cust appointmentStart =
     (let startDate = utc_day appointmentStart;
          startTime = hhmm (local_minute_of_day (tz_offset e) appointmentStart);
          endTime = addMinutesToTime startTime (minutesToAdd e)
      in \<lparr>ap_start = \<lparr>dt_date = startDate, dt_time = startTime @ '':00''\<rparr>,
          ap_end = \<lparr>dt_date = startDate, dt_time = endTime @ '':00''\<rparr>,
          ap_notes = ''Booked via Voice Agent. Original request: '' @ [CHR 0x22]
                     @ str_of (speechResult req) @ [CHR 0x22],
          ap_customerId = cust_id cust,
          ap_serviceId = service_id e,
          ap_providerId = 1\<rparr>)"

text \<open>
  Steps 7a to 7d, the body of the \<^verbatim>\<open>try\<close> when a start was parsed: the events, and the
  error thrown, if any.
\<close>

definition bookAppointment ::
  "env \<Rightarrow> request \<Rightarrow> customer \<Rightarrow> string \<Rightarrow> int \<Rightarrow> event list \<times> js_error option" where
  "bookAppointment e req cust lang appointmentStart =
     (let r = appointmentRequest e req cust appointmentStart
      in if \<not> truthy (EASY_APPOINTMENTS_URL e) \<or> \<not> truthy (EASY_APPOINTMENTS_API_KEY e)
         then ([], Some ''Easy!Appointments URL or API Key not configured.'')
         else (case ea_post e r of
                 Inl err \<Rightarrow> ([SchedulerPost r], Some err)
               | Inr bookedAppointmentId \<Rightarrow>
                   (case toLocaleDateString e lang appointmentStart of
                      Inl err \<Rightarrow> ([SchedulerPost r], Some err)
                    | Inr confirmationDate \<Rightarrow>
                        (case toLocaleTimeString e lang appointmentStart of
                           Inl err \<Rightarrow> ([SchedulerPost r], Some err)
                         | Inr confirmationTime \<Rightarrow>
                             (let confirmationText =
                                    ''Okay, your appointment is booked for '' @ confirmationDate
                                    @ '' at '' @ confirmationTime @ ''.'';
                                  tr = translateText e confirmationText ''en'' lang;
                                  voiceResponse = ultravoxTextToSpeech e (snd tr) lang
                              in (SchedulerPost r # fst tr @ [Respond 200 voiceResponse]
                                  @ saveAnalytics e
                                      (analytics_doc req cust lang True (Some bookedAppointmentId)
                                         (Some appointmentStart) None),
                                  None))))))"

text \<open>Steps 7e and 7f: no start was parsed.\<close>

definition notBooked :: "env \<Rightarrow> request \<Rightarrow> customer \<Rightarrow> string \<Rightarrow> event list" where
  "notBooked e req cust lang =
     (let errorMessage = ''Sorry, I couldn'' @ [CHR 0xE2, CHR 0x80, CHR 0x99]
                         @ ''t understand the date or time you requested. Could you please try again?'';
          tr = translateText e errorMessage ''en'' lang;
          voiceResponse = ultravoxTextToSpeech e (snd tr) lang
      in fst tr @ [Respond 200 voiceResponse]
         @ saveAnalytics e (analytics_doc req cust lang False None None (Some ''Parsing failed'')))"

text \<open>Steps 8 and 8a: the \<^verbatim>\<open>catch\<close> of the \<^verbatim>\<open>try\<close> around step 7.\<close>

definition handleError :: "env \<Rightarrow> request \<Rightarrow> customer \<Rightarrow> string \<Rightarrow> js_error \<Rightarrow> event list" where
  "handleError e req cust lang err =
     (let genericErrorMessage = ''Sorry, an unexpected error occurred while processing your request.'';
          tr = translateText e genericErrorMessage ''en'' lang;
          voiceResponse = ultravoxTextToSpeech e (snd tr) lang
      in fst tr @ [Respond 500 voiceResponse]
         @ saveAnalytics e
             (analytics_doc req cust lang False None None (Some (''Server error: '' @ err))))"

definition processResult :: "env \<Rightarrow> request \<Rightarrow> customer \<Rightarrow> string \<Rightarrow> int option \<Rightarrow> event list" where
  "processResult e req cust lang appointmentStart =
     (case appointmentStart of
        Some start \<Rightarrow>
          (case snd (bookAppointment e req cust lang start) of
             None \<Rightarrow> fst (bookAppointment e req cust lang start)
           | Some err \<Rightarrow> fst (bookAppointment e req cust lang start) @ handleError e req cust lang err)
      | None \<Rightarrow> notBooked e req cust lang)"

text \<open>Steps 4 to 8, for a request with a customer.\<close>

definition resolvedLanguage :: "env \<Rightarrow> request \<Rightarrow> string" where
  "resolvedLanguage e req = snd (detectLanguage e (languageHint req) (speechResult req))"

definition textToParse :: "env \<Rightarrow> request \<Rightarrow> string option" where
  "textToParse e req = snd (translateForParsing e (speechResult req) (resolvedLanguage e req))"

definition appointmentStart_of :: "env \<Rightarrow> request \<Rightarrow> int option" where
  "appointmentStart_of e req = snd (parseAppointmentTime e (textToParse e req))"

definition pipeline :: "env \<Rightarrow> request \<Rightarrow> customer \<Rightarrow> event list" where
  "pipeline e req cust =
     fst (detectLanguage e (languageHint req) (speechResult req))
     @ fst (translateForParsing e (speechResult req) (resolvedLanguage e req))
     @ fst (parseAppointmentTime e (textToParse e req))
     @ processResult e req cust (resolvedLanguage e req) (appointmentStart_of e req)"

text \<open>\<^verbatim>\<open>app.post('/voice', ...)\<close>.\<close>

definition voice :: "env \<Rightarrow> request \<Rightarrow> event list" where
  "voice e req =
     (if \<not> truthy (phoneNumber req)
      then [Respond 400 (ultravoxTextToSpeech e
              ''An internal error occurred. Missing caller information.'' ''en'')]
      else (case getCustomer e (str_of (phoneNumber req)) (languageHint req) of
              (evs, None) \<Rightarrow> evs
            | (evs, Some cust) \<Rightarrow> evs @ pipeline e req cust))"

text \<open>The statuses of the responses sent, in order.\<close>

fun statuses :: "event list \<Rightarrow> nat list" where
  "statuses [] = []"
| "statuses (Respond st body # evs) = st # statuses evs"
| "statuses (ev # evs) = statuses evs"

text \<open>The events of steps 4 to 6: calls to the cache, the detector, the translator and the parser.\<close>

definition internal :: "event \<Rightarrow> bool" where
  "internal ev = (is_RedisGet ev \<or> is_RedisSet ev \<or> is_Detect ev \<or> is_Translate ev \<or> is_ChronoParse ev)"

subsection \<open>The status the transport contract prescribes\<close>

text \<open>
  The contract of the response: 400 for a missing caller identity, 500 for an unhandled
  internal failure, 200 otherwise. The internal failures that no step recovers from are a
  failing customer query and an error thrown in step 7: the scheduler is not configured,
  the scheduling call fails, or the confirmation cannot be formatted.
\<close>

definition customer_of :: "env \<Rightarrow> request \<Rightarrow> customer option" where
  "customer_of e req = snd (getCustomer e (str_of (phoneNumber req)) (languageHint req))"

definition database_outage :: "env \<Rightarrow> request \<Rightarrow> bool" where
  "database_outage e req =
     (case db e of None \<Rightarrow> False | Some query \<Rightarrow> isl (query (str_of (phoneNumber req))))"

definition booking_throws :: "env \<Rightarrow> request \<Rightarrow> customer \<Rightarrow> string \<Rightarrow> int \<Rightarrow> bool" where
  "booking_throws e req cust lang start =
     (\<not> truthy (EASY_APPOINTMENTS_URL e) \<or> \<not> truthy (EASY_APPOINTMENTS_API_KEY e)
      \<or> isl (ea_post e (appointmentRequest e req cust start))
      \<or> isl (toLocaleDateString e lang start)
      \<or> isl (toLocaleTimeString e lang start))"

definition internal_failure :: "env \<Rightarrow> request \<Rightarrow> bool" where
  "internal_failure e req =
     (database_outage e req
      \<or> (case customer_of e req of
            None \<Rightarrow> False
          | Some cust \<Rightarrow>
              (case appointmentStart_of e req of
                 None \<Rightarrow> False
               | Some start \<Rightarrow> booking_throws e req cust (resolvedLanguage e req) start)))"

definition expected_status :: "env \<Rightarrow> request \<Rightarrow> nat" where
  "expected_status e req =
     (if \<not> truthy (phoneNumber req) then 400
      else if internal_failure e req then 500
      else 200)"

text \<open>The events that can precede the response: calls to collaborators other than the analytics store.\<close>

definition silent :: "event \<Rightarrow> bool" where
  "silent ev = (internal ev \<or> is_DbQuery ev \<or> is_SchedulerPost ev)"

text \<open>The status of step 7 or 8: 500 when the booking throws, 200 otherwise.\<close>

definition status7 :: "env \<Rightarrow> request \<Rightarrow> customer \<Rightarrow> string \<Rightarrow> int option \<Rightarrow> nat" where
  "status7 e req cust lang st =
     (case st of
        None \<Rightarrow> 200
      | Some start \<Rightarrow> if booking_throws e req cust lang start then 500 else 200)"

text \<open>The events of steps 4 to 6 of a request.\<close>

definition steps456 :: "env \<Rightarrow> request \<Rightarrow> event list" where
  "steps456 e req = fst (detectLanguage e (languageHint req) (speechResult req))
     @ fst (translateForParsing e (speechResult req) (resolvedLanguage e req))
     @ fst (parseAppointmentTime e (textToParse e req))"

text \<open>A trace without the events of the analytics store.\<close>

definition without_analytics :: "event list \<Rightarrow> event list" where
  "without_analytics evs = filter (\<lambda>ev. \<not> is_AnalyticsAdd ev \<and> \<not> is_AnalyticsError ev) evs"

subsection \<open>The cache, as the language step sees it\<close>

text \<open>
  The key of a text, whether reading the cache yields no language (no cache is
  configured, the key is missing, or its value is empty), and the events of the read.
\<close>

definition cache_key :: "string \<Rightarrow> string" where
  "cache_key text = ''lang:'' @ text"

definition cache_miss :: "env \<Rightarrow> string \<Rightarrow> bool" where
  "cache_miss e text =
     (case redis e of
        None \<Rightarrow> True
      | Some r \<Rightarrow> (case redis_get r (cache_key text) of Inr v \<Rightarrow> \<not> truthy v | Inl err \<Rightarrow> False))"

definition cache_read :: "env \<Rightarrow> string \<Rightarrow> event list" where
  "cache_read e text = (case redis e of None \<Rightarrow> [] | Some r \<Rightarrow> [RedisGet (cache_key text)])"

subsection \<open>Concrete collaborators and requests\<close>

text \<open>
  A deployment with every capability configured and working: the detector reports
  Spanish, the cache is empty, every text parses to 2024-10-04 23:45 UTC, the scheduler
  answers with appointment 42. The other environments below change one thing each.
\<close>

definition tc_es :: translation_client where
  "tc_es = \<lparr>detect = (\<lambda>t. Inr ''es''), translate = (\<lambda>t s g. Inr (''<'' @ g @ ''>'' @ t))\<rparr>"

definition redis_empty :: redis_client where
  "redis_empty = \<lparr>redis_get = (\<lambda>k. Inr None), redis_set = (\<lambda>k v ttl. Inr ())\<rparr>"

definition redis_hit_es :: redis_client where
  "redis_hit_es = \<lparr>redis_get = (\<lambda>k. Inr (Some ''es'')), redis_set = (\<lambda>k v ttl. Inr ())\<rparr>"

definition redis_set_fails :: redis_client where
  "redis_set_fails = \<lparr>redis_get = (\<lambda>k. Inr None), redis_set = (\<lambda>k v ttl. Inl ''READONLY'')\<rparr>"

definition late_evening :: int where
  "late_evening = 1728085500000"

definition env_full :: env where
  "env_full =
     \<lparr>translationClient = Some tc_es,
      db = Some (\<lambda>p. if p = ''+15550100'' then Inr [\<lparr>cust_id = ''7'', cust_email = ''ann@example.com''\<rparr>]
                      else Inr []),
      redis = Some redis_empty,
      firestore = Some (\<lambda>d. True),
      EASY_APPOINTMENTS_URL = Some ''https://ea.example.com'',
      EASY_APPOINTMENTS_API_KEY = Some ''secret'',
      DEFAULT_APPOINTMENT_SERVICE_ID = None,
      DEFAULT_APPOINTMENT_DURATION = None,
      ULTRAVOX_TTS_URL = None,
      tts_post = (\<lambda>t l. Inl ''unused''),
      ea_post = (\<lambda>r. Inr ''42''),
      chrono_parse = (\<lambda>t. Inr [late_evening]),
      toLocaleDateString = (\<lambda>l i. Inr ''Friday, October 4, 2024''),
      toLocaleTimeString = (\<lambda>l i. Inr ''11:45 PM''),
      tz_offset = 0\<rparr>"

definition env_no_db :: env where
  "env_no_db = env_full\<lparr>db := None\<rparr>"

definition req_known :: request where
  "req_known =
     \<lparr>caller_id = Some ''+15550100'', From = None, call_id = Some ''CA1'', CallSid = None,
      duration = None, CallDuration = None, ultravox_transcription = None,
      SpeechResult = Some ''tonight at 11:45pm'', interaction_result = None\<rparr>"

definition tc_down :: translation_client where
  "tc_down = \<lparr>detect = (\<lambda>t. Inl ''detect failed''), translate = (\<lambda>t s g. Inl ''translate failed'')\<rparr>"

definition mid_morning :: int where
  "mid_morning = 1728036900000"

definition ann :: customer where
  "ann = \<lparr>cust_id = ''7'', cust_email = ''ann@example.com''\<rparr>"

definition env_analytics_down :: env where
  "env_analytics_down = env_full\<lparr>firestore := Some (\<lambda>d. False)\<rparr>"

definition env_no_detector :: env where
  "env_no_detector = env_full\<lparr>translationClient := None, redis := Some redis_hit_es\<rparr>"

definition env_cache_readonly :: env where
  "env_cache_readonly = env_full\<lparr>redis := Some redis_set_fails\<rparr>"

definition redis_get_fails :: redis_client where
  "redis_get_fails = \<lparr>redis_get = (\<lambda>k. Inl ''ECONNREFUSED''), redis_set = (\<lambda>k v ttl. Inr ())\<rparr>"

definition env_cache_down :: env where
  "env_cache_down = env_full\<lparr>redis := Some redis_get_fails\<rparr>"

definition env_no_cache :: env where
  "env_no_cache = env_full\<lparr>redis := None\<rparr>"

section \<open>Sentiment at stream close\<close>

lemmas double_eval = bitlength.simps floor_log2_ratio_def ulp_exponent_def round_half_even_def
  significand_def pack_def round_to_double_def
  double_0_1_def double_0_2_def double_0_3_def double_0_9_def double_minus_0_2_def
  double_minus_0_5_def

lemma foldl_scores_state:
  "finalSentimentScore (foldl ws_on_score s (map Scored xs)) = foldl fadd (finalSentimentScore s) xs
   \<and> sentimentCount (foldl ws_on_score s (map Scored xs)) = sentimentCount s + length xs"
  by (induction xs arbitrary: s) (simp_all add: ws_on_score_def)

lemma not_above_0_2: "\<not> flt double_0_2 double_0_2"
  by (simp add: double_0_2_def)

lemma not_below_minus_0_2: "\<not> flt double_0_2 double_minus_0_2"
  by (simp add: double_0_2_def double_minus_0_2_def)

text \<open>
  C4. For every finite sequence of sentiment samples accumulated by the message handler,
  the sentiment computed at close is neutral for no sample; otherwise, with sum the
  running binary64 sum of the samples in their order and sum/count its binary64 quotient
  by the count, as the handlers compute them, it is positive iff sum/count > 0.2,
  negative iff sum/count < -0.2, and neutral otherwise; in particular an average that is
  exactly the number 0.2 yields neutral.
\<close>

theorem final_sentiment_of_samples:
  "sum_sentiment (ws_on_close (foldl ws_on_score initial_state (map Scored xs))) =
     (if length xs = 0 then ''neutral''
      else if flt double_0_2 (fdiv (foldl fadd (Finite 0 0) xs) (length xs)) then ''positive''
      else if flt (fdiv (foldl fadd (Finite 0 0) xs) (length xs)) double_minus_0_2 then ''negative''
      else ''neutral'')
   \<and> (length xs \<noteq> 0 \<and> fdiv (foldl fadd (Finite 0 0) xs) (length xs) = double_0_2
        \<longrightarrow> sum_sentiment (ws_on_close (foldl ws_on_score initial_state (map Scored xs))) = ''neutral'')"
proof -
  let ?s = "foldl ws_on_score initial_state (map Scored xs)"
  have sc: "finalSentimentScore ?s = foldl fadd (Finite 0 0) xs" and cnt: "sentimentCount ?s = length xs"
    using foldl_scores_state [of initial_state xs] by (simp_all add: initial_state_def)
  have main: "sum_sentiment (ws_on_close ?s) =
     (if length xs = 0 then ''neutral''
      else if flt double_0_2 (fdiv (foldl fadd (Finite 0 0) xs) (length xs)) then ''positive''
      else if flt (fdiv (foldl fadd (Finite 0 0) xs) (length xs)) double_minus_0_2 then ''negative''
      else ''neutral'')"
    by (simp add: ws_on_close_def final_sentiment_def sc cnt Let_def)
  have boundary: "sum_sentiment (ws_on_close ?s) = ''neutral''"
    if "length xs \<noteq> 0 \<and> fdiv (foldl fadd (Finite 0 0) xs) (length xs) = double_0_2"
    using that main not_above_0_2 not_below_minus_0_2 by simp
  show ?thesis
    using main boundary by blast
qed

text \<open>
  The samples 0.1 and 0.3 have the sum 0.4 and the average 0.2: neutral. The samples
  0.1, 0.2 and 0.3 have the sum 0.6000000000000001 and the average 0.20000000000000004:
  positive. The sample -0.5 is negative, no sample is neutral.
\<close>

theorem final_sentiment_of_samples_witness:
  "length [double_0_1, double_0_3] \<noteq> 0
   \<and> fdiv (foldl fadd (Finite 0 0) [double_0_1, double_0_3]) (length [double_0_1, double_0_3]) = double_0_2
   \<and> sum_sentiment (ws_on_close (foldl ws_on_score initial_state (map Scored [double_0_1, double_0_3])))
       = ''neutral''
   \<and> fdiv (foldl fadd (Finite 0 0) [double_0_1, double_0_2, double_0_3]) 3 = Finite 7205759403792795 (- 55)
   \<and> sum_sentiment (ws_on_close (foldl ws_on_score initial_state
         (map Scored [double_0_1, double_0_2, double_0_3]))) = ''positive''
   \<and> sum_sentiment (ws_on_close (foldl ws_on_score initial_state (map Scored [double_minus_0_5])))
       = ''negative''
   \<and> sum_sentiment (ws_on_close (foldl ws_on_score initial_state (map Scored []))) = ''neutral''"
proof -
  have len2: "length [double_0_1, double_0_3] = 2"
    by simp
  have avg2: "fdiv (foldl fadd (Finite 0 0) [double_0_1, double_0_3]) 2 = double_0_2"
    by (simp add: double_eval)
  have avg: "length [double_0_1, double_0_3] \<noteq> 0
     \<and> fdiv (foldl fadd (Finite 0 0) [double_0_1, double_0_3]) (length [double_0_1, double_0_3]) = double_0_2"
    unfolding len2 using avg2 by simp
  have neutral: "sum_sentiment (ws_on_close (foldl ws_on_score initial_state (map Scored [double_0_1, double_0_3])))
       = ''neutral''"
    using final_sentiment_of_samples [of "[double_0_1, double_0_3]"] avg by blast
  have len3: "length [double_0_1, double_0_2, double_0_3] = 3"
    by simp
  have avg3: "fdiv (foldl fadd (Finite 0 0) [double_0_1, double_0_2, double_0_3]) 3 = Finite 7205759403792795 (- 55)"
    by (simp add: double_eval)
  have positive: "sum_sentiment (ws_on_close (foldl ws_on_score initial_state
         (map Scored [double_0_1, double_0_2, double_0_3]))) = ''positive''"
    using final_sentiment_of_samples [of "[double_0_1, double_0_2, double_0_3]"]
    unfolding len3 avg3 by (simp add: double_0_2_def)
  have len1: "length [double_minus_0_5] = 1"
    by simp
  have avg1: "fdiv (foldl fadd (Finite 0 0) [double_minus_0_5]) 1 = double_minus_0_5"
    by (simp add: double_eval)
  have negative: "sum_sentiment (ws_on_close (foldl ws_on_score initial_state (map Scored [double_minus_0_5])))
       = ''negative''"
    using final_sentiment_of_samples [of "[double_minus_0_5]"]
    unfolding len1 avg1 by (simp add: double_0_2_def double_minus_0_2_def double_minus_0_5_def)
  have none: "sum_sentiment (ws_on_close (foldl ws_on_score initial_state (map Scored []))) = ''neutral''"
    using final_sentiment_of_samples [of "[]"] by simp
  show ?thesis
    using avg neutral avg3 positive negative none by blast
qed

section \<open>Finalization and sentiment requests in flight\<close>

lemma foldl_ws_step_scores:
  "finalSentimentScore (fst (foldl (ws_step ctx) (s, out) evs)) =
     foldl fadd (finalSentimentScore s) (returned_scores evs)
   \<and> sentimentCount (fst (foldl (ws_step ctx) (s, out) evs)) =
     sentimentCount s + length (returned_scores evs)"
proof (induction evs arbitrary: s out)
  case Nil
  show ?case by simp
next
  case (Cons e evs)
  show ?case
  proof (cases e)
    case (Message f)
    obtain s' where s': "ws_step ctx (s, out) e = (s', out)"
      and "finalSentimentScore s' = finalSentimentScore s"
      and "sentimentCount s' = sentimentCount s"
      using Message
      by (cases f) (simp_all add: ws_on_message_def Let_def)
    then show ?thesis
      using Cons.IH [of s' out] Message by simp
  next
    case (ScoreReturn r)
    then show ?thesis
      using Cons.IH [of "ws_on_score s r" out]
      by (cases r) (simp_all add: ws_on_score_def)
  next
    case Close
    then show ?thesis
      using Cons.IH [of s "out @ [ws_on_close s]"] by simp
  qed
qed

lemma foldl_ws_step_no_close:
  "Close \<notin> set evs \<Longrightarrow> snd (foldl (ws_step ctx) (s, out) evs) = out"
proof (induction evs arbitrary: s)
  case Nil
  show ?case by simp
next
  case (Cons e evs)
  then show ?case by (cases e) simp_all
qed

lemma foldl_ws_step_out:
  "\<exists>rest. snd (foldl (ws_step ctx) (s, out) evs) = out @ rest"
proof (induction evs arbitrary: s out)
  case Nil
  show ?case by simp
next
  case (Cons e evs)
  show ?case
  proof (cases e)
    case (Message f)
    then show ?thesis using Cons.IH [of "fst (ws_on_message ctx s f)" out] by simp
  next
    case (ScoreReturn r)
    then show ?thesis using Cons.IH [of "ws_on_score s r" out] by simp
  next
    case Close
    then show ?thesis using Cons.IH [of s "out @ [ws_on_close s]"] by auto
  qed
qed

text \<open>
  C8 (as stated, refuted). One caller utterance is being scored when the socket closes:
  one request is in flight, the payload is finalized at once with count 0 (neutral), and
  the score that settles afterwards is not in it. Had the request settled before the
  close, the payload would have been positive.
\<close>

theorem close_does_not_wait_counterexample:
  "in_flight ctx_scoring [caller_says ''I love it''] = 1
   \<and> map sum_sentiment
        (snd (ws_run ctx_scoring [caller_says ''I love it'', Close, ScoreReturn (Scored double_0_9)]))
      = [''neutral'']
   \<and> map sum_sentiment
        (snd (ws_run ctx_scoring [caller_says ''I love it'', ScoreReturn (Scored double_0_9), Close]))
      = [''positive'']"
  by (simp add: ctx_scoring_def caller_says_def ws_run_def ws_on_message_def ws_on_score_def
      ws_on_close_def final_sentiment_def initial_state_def truthy_def or_default_def double_eval)

text \<open>
  C8 (amended). The close handler does not wait: the payload is computed at the close from
  the variables as they are then, whatever is in flight and whatever happens afterwards;
  its sum and count are those of the sentiment requests that settled before the close
  (the sum being the running binary64 sum of their scores).
\<close>

theorem close_finalizes_settled_scores:
  "Close \<notin> set pre \<Longrightarrow>
     (\<exists>rest. snd (ws_run ctx (pre @ Close # post)) = ws_on_close (fst (ws_run ctx pre)) # rest)
     \<and> finalSentimentScore (fst (ws_run ctx pre)) = foldl fadd (Finite 0 0) (returned_scores pre)
     \<and> sentimentCount (fst (ws_run ctx pre)) = length (returned_scores pre)"
proof -
  assume nc: "Close \<notin> set pre"
  obtain s out where so: "ws_run ctx pre = (s, out)"
    by (cases "ws_run ctx pre")
  have "out = []"
    using foldl_ws_step_no_close [OF nc, of ctx initial_state "[]"] so
    by (simp add: ws_run_def)
  then have "ws_run ctx (pre @ Close # post) = foldl (ws_step ctx) (s, [ws_on_close s]) post"
    using so by (simp add: ws_run_def)
  then have first: "\<exists>rest. snd (ws_run ctx (pre @ Close # post)) = ws_on_close (fst (ws_run ctx pre)) # rest"
    using foldl_ws_step_out [of ctx s "[ws_on_close s]" post] so by simp
  have sc: "finalSentimentScore (fst (ws_run ctx pre)) = foldl fadd (Finite 0 0) (returned_scores pre)"
    using foldl_ws_step_scores [of ctx initial_state "[]" pre]
    by (simp add: ws_run_def initial_state_def)
  have cnt: "sentimentCount (fst (ws_run ctx pre)) = length (returned_scores pre)"
    using foldl_ws_step_scores [of ctx initial_state "[]" pre]
    by (simp add: ws_run_def initial_state_def)
  show ?thesis using first sc cnt by blast
qed

theorem close_finalizes_settled_scores_witness:
  "Close \<notin> set [caller_says ''I love it'']
   \<and> (\<exists>rest. snd (ws_run ctx_scoring ([caller_says ''I love it''] @ Close # [ScoreReturn (Scored double_0_9)]))
         = ws_on_close (fst (ws_run ctx_scoring [caller_says ''I love it''])) # rest)
   \<and> sentimentCount (fst (ws_run ctx_scoring [caller_says ''I love it''])) = 0"
proof -
  have h: "Close \<notin> set [caller_says ''I love it'']"
    by (simp add: caller_says_def)
  show ?thesis
    using h close_finalizes_settled_scores [OF h, of ctx_scoring "[ScoreReturn (Scored double_0_9)]"]
    by (simp add: caller_says_def)
qed

section \<open>The last agent response\<close>

text \<open>A split always has a first and a last piece.\<close>

lemma split_from_nonempty: "split_from sep cur s \<noteq> []"
  by (induction sep cur s rule: split_from.induct) simp_all

lemma split_nonempty: "sep \<noteq> [] \<Longrightarrow> split sep s \<noteq> []"
  by (simp add: split_def split_from_nonempty)

text \<open>
  C9 (the code at the failing inputs). When the agent speaks first, the payload's text
  keeps the label; when only the caller spoke, it is the caller's line; an agent
  utterance after a caller's line is extracted as the claim says.
\<close>

theorem lastAgentResponse_keeps_label:
  "map sum_text (snd (ws_run ctx_scoring [agent_says ''Hello'', Close])) = [''Receptionist: Hello'']
   \<and> map sum_text (snd (ws_run ctx_scoring [caller_says ''hi'', Close])) = [''Caller: hi'']
   \<and> map sum_text (snd (ws_run ctx_scoring [caller_says ''hi'', agent_says ''Hello'', Close])) = [''Hello'']"
  by (simp add: ctx_scoring_def caller_says_def agent_says_def ws_run_def ws_on_message_def
      ws_on_close_def lastAgentResponse_def split_def trim_def is_ws_def newline_def
      initial_state_def or_default_def)

section \<open>The shape of a request's trace\<close>

lemma statuses_append: "statuses (xs @ ys) = statuses xs @ statuses ys"
  by (induction xs rule: statuses.induct) simp_all

lemma statuses_internal: "list_all internal xs \<Longrightarrow> statuses xs = []"
  by (induction xs rule: statuses.induct) (simp_all add: internal_def)

lemma filter_internal:
  "list_all internal xs \<Longrightarrow>
     filter is_Respond xs = [] \<and> filter is_SchedulerPost xs = [] \<and> filter is_AnalyticsAdd xs = []
     \<and> filter is_DbQuery xs = []"
proof (induction xs)
  case Nil
  show ?case by simp
next
  case (Cons ev xs)
  then show ?case by (cases ev) (simp_all add: internal_def)
qed

lemma translateText_internal: "list_all internal (fst (translateText e t s g))"
  by (simp add: translateText_def internal_def split: option.splits sum.splits)

lemma detectAndCache_internal: "list_all internal (fst (detectAndCache e tc t k))"
  by (simp add: detectAndCache_def internal_def split: option.splits sum.splits)

lemma lookupOrDetect_internal: "list_all internal (fst (lookupOrDetect e tc t))"
  using detectAndCache_internal [of e tc t "''lang:'' @ t"]
  by (simp add: lookupOrDetect_def internal_def Let_def split: option.splits sum.splits)

lemma detectLanguage_internal: "list_all internal (fst (detectLanguage e h s))"
  using lookupOrDetect_internal
  by (simp add: detectLanguage_def split: option.splits)

lemma translateForParsing_internal: "list_all internal (fst (translateForParsing e s l))"
  using translateText_internal by (simp add: translateForParsing_def)

lemma parseAppointmentTime_internal: "list_all internal (fst (parseAppointmentTime e t))"
  by (simp add: parseAppointmentTime_def internal_def split: sum.splits list.splits)

lemma pipeline_split:
  "pipeline e req cust = steps456 e req @ processResult e req cust (resolvedLanguage e req) (appointmentStart_of e req)"
  by (simp add: pipeline_def steps456_def)

lemma steps456_internal: "list_all internal (steps456 e req)"
  by (simp add: steps456_def detectLanguage_internal translateForParsing_internal parseAppointmentTime_internal)


lemma saveAnalytics_cases:
  "saveAnalytics e d = [] \<or> saveAnalytics e d = [AnalyticsAdd d] \<or> saveAnalytics e d = [AnalyticsAdd d, AnalyticsError]"
  by (simp add: saveAnalytics_def split: option.splits)

lemma handleError_shape:
  "\<exists>xs body d. handleError e req cust lang err = xs @ Respond 500 body # saveAnalytics e d
     \<and> subscriberEmail d = cust_email cust \<and> list_all internal xs"
proof -
  let ?tr = "translateText e ''Sorry, an unexpected error occurred while processing your request.'' ''en'' lang"
  have "handleError e req cust lang err =
          fst ?tr @ Respond 500 (ultravoxTextToSpeech e (snd ?tr) lang)
            # saveAnalytics e (analytics_doc req cust lang False None None (Some (''Server error: '' @ err)))"
    by (simp add: handleError_def Let_def)
  moreover have "subscriberEmail (analytics_doc req cust lang False None None (Some (''Server error: '' @ err))) = cust_email cust"
    by (simp add: analytics_doc_def)
  ultimately show ?thesis
    using translateText_internal by blast
qed

lemma notBooked_shape:
  "\<exists>xs body d. notBooked e req cust lang = xs @ Respond 200 body # saveAnalytics e d
     \<and> subscriberEmail d = cust_email cust \<and> list_all internal xs"
proof -
  let ?msg = "''Sorry, I couldn'' @ [CHR 0xE2, CHR 0x80, CHR 0x99]
               @ ''t understand the date or time you requested. Could you please try again?''"
  let ?tr = "translateText e ?msg ''en'' lang"
  have "notBooked e req cust lang =
          fst ?tr @ Respond 200 (ultravoxTextToSpeech e (snd ?tr) lang)
            # saveAnalytics e (analytics_doc req cust lang False None None (Some ''Parsing failed''))"
    by (simp add: notBooked_def Let_def)
  moreover have "subscriberEmail (analytics_doc req cust lang False None None (Some ''Parsing failed'')) = cust_email cust"
    by (simp add: analytics_doc_def)
  ultimately show ?thesis
    using translateText_internal by blast
qed

lemma not_isl_Inr: "\<not> isl x \<Longrightarrow> \<exists>y. x = Inr y"
  by (cases x) simp_all

lemma bookAppointment_throws:
  assumes "booking_throws e req cust lang start"
  shows "\<exists>err. bookAppointment e req cust lang start = ([], Some err)
           \<or> bookAppointment e req cust lang start
               = ([SchedulerPost (appointmentRequest e req cust start)], Some err)"
proof (cases "\<not> truthy (EASY_APPOINTMENTS_URL e) \<or> \<not> truthy (EASY_APPOINTMENTS_API_KEY e)")
  case True
  then show ?thesis by (simp add: bookAppointment_def Let_def)
next
  case cfg: False
  show ?thesis
  proof (cases "ea_post e (appointmentRequest e req cust start)")
    case (Inl err)
    then show ?thesis using cfg by (simp add: bookAppointment_def Let_def)
  next
    case post: (Inr i)
    show ?thesis
    proof (cases "toLocaleDateString e lang start")
      case (Inl err)
      then show ?thesis using cfg post by (simp add: bookAppointment_def Let_def)
    next
      case dt: (Inr d)
      show ?thesis
      proof (cases "toLocaleTimeString e lang start")
        case (Inl err)
        then show ?thesis using cfg post dt by (simp add: bookAppointment_def Let_def)
      next
        case (Inr t)
        then have False using assms cfg post dt by (simp add: booking_throws_def)
        then show ?thesis ..
      qed
    qed
  qed
qed

lemma bookAppointment_ok:
  assumes "\<not> booking_throws e req cust lang start"
  shows "\<exists>xs body d. bookAppointment e req cust lang start
             = (SchedulerPost (appointmentRequest e req cust start) # xs @ Respond 200 body # saveAnalytics e d, None)
           \<and> subscriberEmail d = cust_email cust \<and> list_all internal xs"
proof -
  from assms have cfg: "truthy (EASY_APPOINTMENTS_URL e)" "truthy (EASY_APPOINTMENTS_API_KEY e)"
    and a: "\<not> isl (ea_post e (appointmentRequest e req cust start))"
    and b: "\<not> isl (toLocaleDateString e lang start)"
    and c: "\<not> isl (toLocaleTimeString e lang start)"
    by (simp_all add: booking_throws_def)
  obtain i where i: "ea_post e (appointmentRequest e req cust start) = Inr i"
    using not_isl_Inr [OF a] by blast
  obtain dt where dt: "toLocaleDateString e lang start = Inr dt"
    using not_isl_Inr [OF b] by blast
  obtain tm where tm: "toLocaleTimeString e lang start = Inr tm"
    using not_isl_Inr [OF c] by blast
  let ?tr = "translateText e (''Okay, your appointment is booked for '' @ dt @ '' at '' @ tm @ ''.'') ''en'' lang"
  let ?d = "analytics_doc req cust lang True (Some i) (Some start) None"
  have "bookAppointment e req cust lang start
          = (SchedulerPost (appointmentRequest e req cust start) # fst ?tr
               @ Respond 200 (ultravoxTextToSpeech e (snd ?tr) lang) # saveAnalytics e ?d, None)"
    using cfg i dt tm by (simp add: bookAppointment_def Let_def)
  moreover have "subscriberEmail ?d = cust_email cust"
    by (simp add: analytics_doc_def)
  ultimately show ?thesis
    using translateText_internal by blast
qed


lemma internal_silent: "list_all internal xs \<Longrightarrow> list_all silent xs"
  by (induction xs) (simp_all add: silent_def)

lemma filter_post_internal: "list_all internal xs \<Longrightarrow> filter is_SchedulerPost xs = []"
  using filter_internal by blast

lemma internal_facts:
  "list_all internal xs \<Longrightarrow>
     list_all silent xs \<and> filter is_DbQuery xs = [] \<and> filter is_SchedulerPost xs = []"
  using internal_silent filter_internal by blast

lemma post_cons_facts:
  "list_all internal xs \<Longrightarrow>
     list_all silent (SchedulerPost r # xs) \<and> filter is_DbQuery (SchedulerPost r # xs) = []
     \<and> filter is_SchedulerPost (SchedulerPost r # xs) = [SchedulerPost r]"
  using internal_facts [of xs] by (simp add: silent_def)

lemma processResult_shape:
  "\<exists>xs body d. processResult e req cust lang st = xs @ Respond (status7 e req cust lang st) body # saveAnalytics e d
     \<and> subscriberEmail d = cust_email cust
     \<and> list_all silent xs \<and> filter is_DbQuery xs = []
     \<and> (filter is_SchedulerPost xs = []
         \<or> (\<exists>start. st = Some start
               \<and> filter is_SchedulerPost xs = [SchedulerPost (appointmentRequest e req cust start)]))"
proof (cases st)
  case None
  obtain xs body d where n: "notBooked e req cust lang = xs @ Respond 200 body # saveAnalytics e d"
      "subscriberEmail d = cust_email cust" "list_all internal xs"
    using notBooked_shape by blast
  have "processResult e req cust lang st = xs @ Respond (status7 e req cust lang st) body # saveAnalytics e d"
    using None n(1) by (simp add: processResult_def status7_def)
  then show ?thesis
    using n(2) internal_facts [OF n(3)] by blast
next
  case (Some start)
  let ?r = "SchedulerPost (appointmentRequest e req cust start)"
  show ?thesis
  proof (cases "booking_throws e req cust lang start")
    case True
    obtain err where b: "bookAppointment e req cust lang start = ([], Some err)
           \<or> bookAppointment e req cust lang start = ([?r], Some err)"
      using bookAppointment_throws [OF True] by blast
    obtain xs body d where h: "handleError e req cust lang err = xs @ Respond 500 body # saveAnalytics e d"
      "subscriberEmail d = cust_email cust" "list_all internal xs"
      using handleError_shape by blast
    from b show ?thesis
    proof
      assume "bookAppointment e req cust lang start = ([], Some err)"
      then have "processResult e req cust lang st = xs @ Respond (status7 e req cust lang st) body # saveAnalytics e d"
        using Some True h(1) by (simp add: processResult_def status7_def)
      then show ?thesis
        using h(2) internal_facts [OF h(3)] by blast
    next
      assume "bookAppointment e req cust lang start = ([?r], Some err)"
      then have "processResult e req cust lang st = (?r # xs) @ Respond (status7 e req cust lang st) body # saveAnalytics e d"
        using Some True h(1) by (simp add: processResult_def status7_def)
      then show ?thesis
        using h(2) Some post_cons_facts [OF h(3)] by blast
    qed
  next
    case False
    obtain xs body d where b: "bookAppointment e req cust lang start = (?r # xs @ Respond 200 body # saveAnalytics e d, None)"
       "subscriberEmail d = cust_email cust" "list_all internal xs"
      using bookAppointment_ok [OF False] by blast
    then have "processResult e req cust lang st = (?r # xs) @ Respond (status7 e req cust lang st) body # saveAnalytics e d"
      using Some False by (simp add: processResult_def status7_def)
    then show ?thesis
      using b(2) Some post_cons_facts [OF b(3)] by blast
  qed
qed

lemma pipeline_shape:
  "\<exists>xs body d. pipeline e req cust =
       xs @ Respond (status7 e req cust (resolvedLanguage e req) (appointmentStart_of e req)) body
         # saveAnalytics e d
     \<and> subscriberEmail d = cust_email cust
     \<and> list_all silent xs \<and> filter is_DbQuery xs = []
     \<and> (filter is_SchedulerPost xs = []
         \<or> (\<exists>start. appointmentStart_of e req = Some start
               \<and> filter is_SchedulerPost xs = [SchedulerPost (appointmentRequest e req cust start)]))"
proof -
  let ?lang = "resolvedLanguage e req" and ?st = "appointmentStart_of e req"
  obtain xs body d where p: "processResult e req cust ?lang ?st
        = xs @ Respond (status7 e req cust ?lang ?st) body # saveAnalytics e d"
     "subscriberEmail d = cust_email cust" "list_all silent xs" "filter is_DbQuery xs = []"
     "filter is_SchedulerPost xs = []
         \<or> (\<exists>start. ?st = Some start
               \<and> filter is_SchedulerPost xs = [SchedulerPost (appointmentRequest e req cust start)])"
    using processResult_shape [of e req cust ?lang ?st] by blast
  have i: "list_all silent (steps456 e req)" "filter is_DbQuery (steps456 e req) = []"
      "filter is_SchedulerPost (steps456 e req) = []"
    using internal_facts [OF steps456_internal] by blast+
  have "pipeline e req cust = (steps456 e req @ xs) @ Respond (status7 e req cust ?lang ?st) body # saveAnalytics e d"
    using p(1) by (simp add: pipeline_split)
  moreover have "list_all silent (steps456 e req @ xs)"
    using i(1) p(3) by simp
  moreover have "filter is_SchedulerPost (steps456 e req @ xs) = filter is_SchedulerPost xs"
    using i(3) by simp
  moreover have "filter is_DbQuery (steps456 e req @ xs) = []"
    using i(2) p(4) by simp
  ultimately show ?thesis
    using p(2,5) by metis
qed

lemma getCustomer_cases:
  "(db e = None \<and> getCustomer e p h = ([], Some demo_customer))
   \<or> (\<exists>q c cs. db e = Some q \<and> q p = Inr (c # cs) \<and> getCustomer e p h = ([DbQuery p], Some c))
   \<or> (\<exists>q. db e = Some q \<and> q p = Inr []
         \<and> getCustomer e p h = ([DbQuery p, Respond 200 (ultravoxTextToSpeech e
                        ''Sorry, we could not find your record in our system.'' (or_default h ''en''))], None))
   \<or> (\<exists>q err body. db e = Some q \<and> q p = Inl err \<and> getCustomer e p h = ([DbQuery p, Respond 500 body], None))"
  by (simp add: getCustomer_def split: option.splits sum.splits list.splits)


lemma customer_of_origin:
  "customer_of e req = Some cust \<Longrightarrow>
     (db e = None \<and> cust = demo_customer)
     \<or> (\<exists>q cs. db e = Some q \<and> q (str_of (phoneNumber req)) = Inr (cust # cs))"
  using getCustomer_cases [of e "str_of (phoneNumber req)" "languageHint req"]
  by (auto simp: customer_of_def)

lemma expected_status_customer:
  assumes "truthy (phoneNumber req)" "customer_of e req = Some cust"
  shows "expected_status e req = status7 e req cust (resolvedLanguage e req) (appointmentStart_of e req)"
proof -
  have "\<not> database_outage e req"
    using customer_of_origin [OF assms(2)] by (auto simp: database_outage_def)
  then show ?thesis
    using assms by (simp add: expected_status_def internal_failure_def status7_def split: option.splits)
qed

lemma voice_shape:
  "\<exists>xs body tl. voice e req = xs @ Respond (expected_status e req) body # tl
     \<and> list_all silent xs
     \<and> (tl = [] \<or> (\<exists>d cust. tl = saveAnalytics e d \<and> customer_of e req = Some cust
                       \<and> subscriberEmail d = cust_email cust))
     \<and> (filter is_SchedulerPost xs = []
         \<or> (\<exists>cust start. customer_of e req = Some cust \<and> appointmentStart_of e req = Some start
               \<and> filter is_SchedulerPost xs = [SchedulerPost (appointmentRequest e req cust start)]))"
proof (cases "truthy (phoneNumber req)")
  case False
  have "voice e req = [] @ Respond (expected_status e req)
       (ultravoxTextToSpeech e ''An internal error occurred. Missing caller information.'' ''en'') # []"
    using False by (simp add: voice_def expected_status_def)
  moreover have "list_all silent []" "filter is_SchedulerPost [] = []"
    by simp_all
  ultimately show ?thesis
    by blast
next
  case phone: True
  let ?p = "str_of (phoneNumber req)" and ?h = "languageHint req"
  have with_customer: ?thesis
    if g: "getCustomer e ?p ?h = (pre, Some cust)" and pre: "list_all silent pre" "filter is_SchedulerPost pre = []"
    for pre cust
  proof -
    have c: "customer_of e req = Some cust"
      using g by (simp add: customer_of_def)
    obtain xs body d where p: "pipeline e req cust = xs @ Respond (expected_status e req) body # saveAnalytics e d"
       "subscriberEmail d = cust_email cust" "list_all silent xs"
       "filter is_SchedulerPost xs = []
         \<or> (\<exists>start. appointmentStart_of e req = Some start
               \<and> filter is_SchedulerPost xs = [SchedulerPost (appointmentRequest e req cust start)])"
      using pipeline_shape [of e req cust] expected_status_customer [OF phone c] by metis
    have "voice e req = (pre @ xs) @ Respond (expected_status e req) body # saveAnalytics e d"
      using phone g p(1) by (simp add: voice_def)
    moreover have "list_all silent (pre @ xs)"
      using pre(1) p(3) by simp
    moreover have "filter is_SchedulerPost (pre @ xs) = filter is_SchedulerPost xs"
      using pre(2) by simp
    ultimately show ?thesis
      using c p(2,4) by metis
  qed
  have responded: ?thesis
    if g: "getCustomer e ?p ?h = ([DbQuery ?p, Respond st body], None)" and st: "expected_status e req = st"
    for st body
  proof -
    have "voice e req = [DbQuery ?p] @ Respond (expected_status e req) body # []"
      using phone g st by (simp add: voice_def)
    moreover have "list_all silent [DbQuery ?p]" "filter is_SchedulerPost [DbQuery ?p] = []"
      by (simp_all add: silent_def)
    ultimately show ?thesis by blast
  qed
  from getCustomer_cases [of e ?p ?h] show ?thesis
  proof (elim disjE exE conjE)
    assume "db e = None" and g: "getCustomer e ?p ?h = ([], Some demo_customer)"
    show ?thesis using with_customer [OF g] by simp
  next
    fix q c cs
    assume "db e = Some q" "q ?p = Inr (c # cs)" and g: "getCustomer e ?p ?h = ([DbQuery ?p], Some c)"
    show ?thesis using with_customer [OF g] by (simp add: silent_def)
  next
    fix q
    assume m: "db e = Some q" "q ?p = Inr []"
      and g: "getCustomer e ?p ?h = ([DbQuery ?p, Respond 200 (ultravoxTextToSpeech e
                        ''Sorry, we could not find your record in our system.'' (or_default ?h ''en''))], None)"
    have "expected_status e req = 200"
      using phone m g by (simp add: expected_status_def internal_failure_def database_outage_def customer_of_def)
    then show ?thesis using responded [OF g] by simp
  next
    fix q err body
    assume m: "db e = Some q" "q ?p = Inl err"
      and g: "getCustomer e ?p ?h = ([DbQuery ?p, Respond 500 body], None)"
    have "expected_status e req = 500"
      using phone m by (simp add: expected_status_def internal_failure_def database_outage_def)
    then show ?thesis using responded [OF g] by simp
  qed
qed

section \<open>Evaluation of the model on concrete inputs\<close>

lemmas js_defs = truthy_def js_or_def or_default_def str_of_def newline_def

lemmas request_defs = phoneNumber_def callId_of_def duration_of_def speechResult_def
  transcript_of_def languageHint_def sentiment_of_def

lemmas step_defs = getCustomer_def detectAndCache_def lookupOrDetect_def detectLanguage_def
  translateText_def translateForParsing_def parseAppointmentTime_def resolvedLanguage_def
  textToParse_def appointmentStart_of_def ultravoxTextToSpeech_def

lemmas status_defs = expected_status_def internal_failure_def database_outage_def customer_of_def
  booking_throws_def status7_def

lemmas example_defs = env_full_def env_no_db_def req_known_def tc_es_def tc_down_def redis_empty_def
  redis_hit_es_def redis_set_fails_def

section \<open>One response per request, and its status\<close>

lemma silent_facts:
  "list_all silent xs \<Longrightarrow>
     filter is_Respond xs = [] \<and> filter is_AnalyticsAdd xs = [] \<and> statuses xs = []"
proof (induction xs)
  case Nil
  show ?case by simp
next
  case (Cons ev xs)
  then show ?case by (cases ev) (simp_all add: silent_def internal_def)
qed

lemma saveAnalytics_facts:
  "filter is_Respond (saveAnalytics e d) = [] \<and> statuses (saveAnalytics e d) = []
   \<and> filter is_SchedulerPost (saveAnalytics e d) = []
   \<and> length (filter is_AnalyticsAdd (saveAnalytics e d)) \<le> 1"
  by (simp add: saveAnalytics_def split: option.splits)

text \<open>
  C2. Every request gets exactly one response, and its status is the one the contract
  prescribes: 400 without a caller number, 500 after a failing customer query or an error
  thrown while booking (among them a scheduling-provider error), 200 otherwise, which
  covers the customer-not-found, the not-parsed and the booked outcomes.
\<close>

theorem voice_responds_exactly_once:
  "\<exists>body. filter is_Respond (voice e req) = [Respond (expected_status e req) body]"
proof -
  obtain xs body tl where v: "voice e req = xs @ Respond (expected_status e req) body # tl"
     "list_all silent xs"
     "tl = [] \<or> (\<exists>d cust. tl = saveAnalytics e d \<and> customer_of e req = Some cust
                       \<and> subscriberEmail d = cust_email cust)"
    using voice_shape [of e req] by blast
  have "filter is_Respond tl = []"
    using v(3) saveAnalytics_facts by auto
  then have "filter is_Respond (voice e req) = [Respond (expected_status e req) body]"
    using v(1) silent_facts [OF v(2)] by simp
  then show ?thesis ..
qed

text \<open>
  A booked request (200), a failing scheduler (500), an unknown caller (200) and a
  request without a caller number (400).
\<close>

theorem voice_responds_exactly_once_witness:
  "(\<exists>body. filter is_Respond (voice env_full req_known) = [Respond 200 body])
   \<and> (\<exists>body. filter is_Respond (voice (env_full\<lparr>ea_post := (\<lambda>r. Inl ''timeout'')\<rparr>) req_known)
               = [Respond 500 body])
   \<and> (\<exists>body. filter is_Respond (voice env_full (req_known\<lparr>caller_id := Some ''+1999''\<rparr>))
               = [Respond 200 body])
   \<and> (\<exists>body. filter is_Respond (voice env_full (req_known\<lparr>caller_id := None\<rparr>)) = [Respond 400 body])"
  using voice_responds_exactly_once [of env_full req_known]
    voice_responds_exactly_once [of "env_full\<lparr>ea_post := (\<lambda>r. Inl ''timeout'')\<rparr>" req_known]
    voice_responds_exactly_once [of env_full "req_known\<lparr>caller_id := Some ''+1999''\<rparr>"]
    voice_responds_exactly_once [of env_full "req_known\<lparr>caller_id := None\<rparr>"]
  by (simp add: status_defs step_defs request_defs js_defs example_defs Let_def)

section \<open>The scheduling call\<close>

lemma appointmentStart_parsed:
  "appointmentStart_of e req = Some start \<Longrightarrow>
     \<exists>rest. chrono_parse e (str_of (textToParse e req)) = Inr (start # rest)"
  by (simp add: appointmentStart_of_def parseAppointmentTime_def split: if_splits sum.splits list.splits)

lemma post_in_filter: "SchedulerPost r \<in> set ys \<Longrightarrow> SchedulerPost r \<in> set (filter is_SchedulerPost ys)"
  by simp

lemma voice_missing_customer:
  assumes "truthy (phoneNumber req)" "db e = Some q" "q (str_of (phoneNumber req)) = Inr []"
  shows "voice e req = [DbQuery (str_of (phoneNumber req)),
           Respond 200 (ultravoxTextToSpeech e ''Sorry, we could not find your record in our system.''
                          (or_default (languageHint req) ''en''))]"
  using assms by (simp add: voice_def getCustomer_def)

text \<open>
  C1 (as stated, refuted). With no database configured there is no lookup by phone
  number, and the scheduling call is made all the same, for the demo customer.
\<close>

theorem scheduling_without_lookup_counterexample:
  "db env_no_db = None
   \<and> filter is_DbQuery (voice env_no_db req_known) = []
   \<and> filter is_SchedulerPost (voice env_no_db req_known)
       = [SchedulerPost (appointmentRequest env_no_db req_known demo_customer late_evening)]"
  by (simp add: voice_def pipeline_def processResult_def bookAppointment_def translateText_def
      saveAnalytics_def step_defs request_defs js_defs example_defs Let_def)

text \<open>
  C1 (amended). The scheduling call is attempted at most once per request, and only for a
  start instant parsed from the text and a customer that is either the first row of the
  lookup by phone number or, when no database is configured, the demo customer. When the
  database is configured and the lookup finds no row, nothing but the lookup and the
  "record not found" response (status 200) happens.
\<close>

theorem scheduling_needs_customer_and_start:
  "length (filter is_SchedulerPost (voice e req)) \<le> 1
   \<and> (\<forall>r. SchedulerPost r \<in> set (voice e req) \<longrightarrow>
        (\<exists>cust start rest. r = appointmentRequest e req cust start
           \<and> chrono_parse e (str_of (textToParse e req)) = Inr (start # rest)
           \<and> ((db e = None \<and> cust = demo_customer)
              \<or> (\<exists>q cs. db e = Some q \<and> q (str_of (phoneNumber req)) = Inr (cust # cs)))))
   \<and> (\<forall>q. truthy (phoneNumber req) \<and> db e = Some q \<and> q (str_of (phoneNumber req)) = Inr [] \<longrightarrow>
        voice e req = [DbQuery (str_of (phoneNumber req)),
           Respond 200 (ultravoxTextToSpeech e ''Sorry, we could not find your record in our system.''
                          (or_default (languageHint req) ''en''))])"
proof -
  obtain xs body tl where v: "voice e req = xs @ Respond (expected_status e req) body # tl"
     "list_all silent xs"
     "tl = [] \<or> (\<exists>d cust. tl = saveAnalytics e d \<and> customer_of e req = Some cust
                       \<and> subscriberEmail d = cust_email cust)"
     "filter is_SchedulerPost xs = []
         \<or> (\<exists>cust start. customer_of e req = Some cust \<and> appointmentStart_of e req = Some start
               \<and> filter is_SchedulerPost xs = [SchedulerPost (appointmentRequest e req cust start)])"
    using voice_shape [of e req] by blast
  have tl: "filter is_SchedulerPost tl = []"
    using v(3) saveAnalytics_facts by auto
  have posts: "filter is_SchedulerPost (voice e req) = filter is_SchedulerPost xs"
    using v(1) tl by simp
  have one: "length (filter is_SchedulerPost (voice e req)) \<le> 1"
    using posts v(4) by auto
  have origin: "\<exists>cust start rest. r = appointmentRequest e req cust start
           \<and> chrono_parse e (str_of (textToParse e req)) = Inr (start # rest)
           \<and> ((db e = None \<and> cust = demo_customer)
              \<or> (\<exists>q cs. db e = Some q \<and> q (str_of (phoneNumber req)) = Inr (cust # cs)))"
    if r: "SchedulerPost r \<in> set (voice e req)" for r
  proof -
    have in_xs: "SchedulerPost r \<in> set (filter is_SchedulerPost xs)"
      using post_in_filter [OF r] posts by simp
    then obtain cust start where cs: "customer_of e req = Some cust" "appointmentStart_of e req = Some start"
        "filter is_SchedulerPost xs = [SchedulerPost (appointmentRequest e req cust start)]"
      using v(4) by fastforce
    then have "r = appointmentRequest e req cust start"
      using in_xs by simp
    then show ?thesis
      using appointmentStart_parsed [OF cs(2)] customer_of_origin [OF cs(1)] by blast
  qed
  show ?thesis
    using one origin voice_missing_customer by blast
qed

theorem scheduling_needs_customer_and_start_witness:
  "SchedulerPost (appointmentRequest env_full req_known \<lparr>cust_id = ''7'', cust_email = ''ann@example.com''\<rparr> late_evening)
     \<in> set (voice env_full req_known)
   \<and> (\<exists>cust start rest.
         appointmentRequest env_full req_known \<lparr>cust_id = ''7'', cust_email = ''ann@example.com''\<rparr> late_evening
           = appointmentRequest env_full req_known cust start
         \<and> chrono_parse env_full (str_of (textToParse env_full req_known)) = Inr (start # rest)
         \<and> ((db env_full = None \<and> cust = demo_customer)
            \<or> (\<exists>q cs. db env_full = Some q \<and> q (str_of (phoneNumber req_known)) = Inr (cust # cs))))
   \<and> length (filter is_SchedulerPost (voice env_full req_known)) \<le> 1
   \<and> voice env_full (req_known\<lparr>caller_id := Some ''+1999''\<rparr>)
       = [DbQuery ''+1999'', Respond 200 ''placeholder_audio_for_en_Sorry, we .mp3'']"
proof -
  let ?r = "appointmentRequest env_full req_known \<lparr>cust_id = ''7'', cust_email = ''ann@example.com''\<rparr> late_evening"
  have posted: "SchedulerPost ?r \<in> set (voice env_full req_known)"
    by (simp add: voice_def pipeline_def processResult_def bookAppointment_def translateText_def
      saveAnalytics_def step_defs request_defs js_defs example_defs Let_def)
  have origin: "\<exists>cust start rest. ?r = appointmentRequest env_full req_known cust start
         \<and> chrono_parse env_full (str_of (textToParse env_full req_known)) = Inr (start # rest)
         \<and> ((db env_full = None \<and> cust = demo_customer)
            \<or> (\<exists>q cs. db env_full = Some q \<and> q (str_of (phoneNumber req_known)) = Inr (cust # cs)))"
    using scheduling_needs_customer_and_start [of env_full req_known] posted by blast
  have once: "length (filter is_SchedulerPost (voice env_full req_known)) \<le> 1"
    using scheduling_needs_customer_and_start [of env_full req_known] by blast
  have missing: "voice env_full (req_known\<lparr>caller_id := Some ''+1999''\<rparr>)
       = [DbQuery ''+1999'', Respond 200 ''placeholder_audio_for_en_Sorry, we .mp3'']"
    using scheduling_needs_customer_and_start [of env_full "req_known\<lparr>caller_id := Some ''+1999''\<rparr>"]
    by (simp add: step_defs request_defs js_defs example_defs)
  show ?thesis
    using posted origin once missing by blast
qed

section \<open>The analytics write\<close>

text \<open>The trace of a request, its analytics events apart, does not depend on the analytics store.\<close>

lemma na_append: "without_analytics (xs @ ys) = without_analytics xs @ without_analytics ys"
  by (simp add: without_analytics_def)

lemma na_Cons:
  "without_analytics (ev # xs) =
     (if is_AnalyticsAdd ev \<or> is_AnalyticsError ev then without_analytics xs else ev # without_analytics xs)"
  by (simp add: without_analytics_def)

lemma na_save: "without_analytics (saveAnalytics e d) = []"
  by (simp add: without_analytics_def saveAnalytics_def split: option.splits)

lemma respond_na: "filter is_Respond (without_analytics xs) = filter is_Respond xs"
proof (induction xs)
  case Nil
  show ?case by (simp add: without_analytics_def)
next
  case (Cons ev xs)
  then show ?case by (cases ev) (simp_all add: without_analytics_def)
qed

lemma fs_tts: "ultravoxTextToSpeech (e\<lparr>firestore := fs\<rparr>) t l = ultravoxTextToSpeech e t l"
  by (simp add: ultravoxTextToSpeech_def split: sum.splits)

lemma fs_translateText: "translateText (e\<lparr>firestore := fs\<rparr>) t s g = translateText e t s g"
  by (simp add: translateText_def split: option.splits sum.splits)

lemma fs_getCustomer: "getCustomer (e\<lparr>firestore := fs\<rparr>) p h = getCustomer e p h"
  by (simp add: getCustomer_def fs_tts split: option.splits sum.splits list.splits)

lemma fs_detectAndCache: "detectAndCache (e\<lparr>firestore := fs\<rparr>) tc t k = detectAndCache e tc t k"
  by (simp add: detectAndCache_def split: option.splits sum.splits)

lemma fs_lookupOrDetect: "lookupOrDetect (e\<lparr>firestore := fs\<rparr>) tc t = lookupOrDetect e tc t"
  by (simp add: lookupOrDetect_def fs_detectAndCache Let_def split: option.splits sum.splits)

lemma fs_detectLanguage: "detectLanguage (e\<lparr>firestore := fs\<rparr>) h s = detectLanguage e h s"
  by (simp add: detectLanguage_def fs_lookupOrDetect split: option.splits)

lemma fs_translateForParsing: "translateForParsing (e\<lparr>firestore := fs\<rparr>) s l = translateForParsing e s l"
  by (simp add: translateForParsing_def fs_translateText)

lemma fs_parseAppointmentTime: "parseAppointmentTime (e\<lparr>firestore := fs\<rparr>) t = parseAppointmentTime e t"
  by (simp add: parseAppointmentTime_def split: sum.splits list.splits)

lemma fs_resolvedLanguage: "resolvedLanguage (e\<lparr>firestore := fs\<rparr>) req = resolvedLanguage e req"
  by (simp add: resolvedLanguage_def fs_detectLanguage)

lemma fs_textToParse: "textToParse (e\<lparr>firestore := fs\<rparr>) req = textToParse e req"
  by (simp add: textToParse_def fs_translateForParsing fs_resolvedLanguage)

lemma fs_appointmentStart_of: "appointmentStart_of (e\<lparr>firestore := fs\<rparr>) req = appointmentStart_of e req"
  by (simp add: appointmentStart_of_def fs_parseAppointmentTime fs_textToParse)

lemma fs_appointmentRequest: "appointmentRequest (e\<lparr>firestore := fs\<rparr>) req c st = appointmentRequest e req c st"
  by (simp add: appointmentRequest_def minutesToAdd_def service_id_def Let_def)

lemma fs_steps456: "steps456 (e\<lparr>firestore := fs\<rparr>) req = steps456 e req"
  by (simp add: steps456_def fs_detectLanguage fs_translateForParsing fs_parseAppointmentTime
      fs_resolvedLanguage fs_textToParse)

lemma fs_handleError:
  "without_analytics (handleError (e\<lparr>firestore := fs\<rparr>) req c l err) = without_analytics (handleError e req c l err)"
  by (simp add: handleError_def Let_def fs_translateText fs_tts na_append na_Cons na_save)

lemma fs_notBooked:
  "without_analytics (notBooked (e\<lparr>firestore := fs\<rparr>) req c l) = without_analytics (notBooked e req c l)"
  by (simp add: notBooked_def Let_def fs_translateText fs_tts na_append na_Cons na_save)


lemma fs_bookAppointment:
  "snd (bookAppointment (e\<lparr>firestore := fs\<rparr>) req c l st) = snd (bookAppointment e req c l st)
   \<and> without_analytics (fst (bookAppointment (e\<lparr>firestore := fs\<rparr>) req c l st))
       = without_analytics (fst (bookAppointment e req c l st))"
  by (simp add: bookAppointment_def Let_def fs_appointmentRequest fs_translateText fs_tts
      na_append na_Cons na_save split: sum.splits)

lemma fs_processResult:
  "without_analytics (processResult (e\<lparr>firestore := fs\<rparr>) req c l st)
     = without_analytics (processResult e req c l st)"
  by (simp add: processResult_def fs_bookAppointment fs_notBooked fs_handleError na_append
      split: option.splits)

lemma fs_pipeline:
  "without_analytics (pipeline (e\<lparr>firestore := fs\<rparr>) req c) = without_analytics (pipeline e req c)"
  by (simp add: pipeline_split fs_steps456 fs_processResult fs_resolvedLanguage fs_appointmentStart_of
      na_append)

lemma fs_voice:
  "without_analytics (voice (e\<lparr>firestore := fs\<rparr>) req) = without_analytics (voice e req)"
  by (simp add: voice_def fs_getCustomer fs_tts fs_pipeline na_append split: prod.splits option.splits)

lemma respond_before_analytics:
  "list_all silent xs \<Longrightarrow> xs @ Respond st b # after = pre @ AnalyticsAdd d # post \<Longrightarrow>
     Respond st b \<in> set pre"
proof (induction xs arbitrary: pre)
  case Nil
  then show ?case by (cases pre) simp_all
next
  case (Cons x xs)
  show ?case
  proof (cases pre)
    case Nil
    then show ?thesis using Cons.prems by (simp add: silent_def internal_def)
  next
    case (Cons p ps)
    then show ?thesis using Cons.IH [of ps] Cons.prems by simp
  qed
qed

text \<open>
  C6. At most one analytics document is added per request; a response has been sent
  before it is added; the responses, and every other event but those of the analytics
  store, are the same whatever the store does or whether there is one; a rejected write
  is logged by its own handler.
\<close>

theorem analytics_after_response:
  "length (filter is_AnalyticsAdd (voice e req)) \<le> 1
   \<and> (\<forall>pre d post. voice e req = pre @ AnalyticsAdd d # post \<longrightarrow> (\<exists>st body. Respond st body \<in> set pre))
   \<and> (\<forall>fs. filter is_Respond (voice (e\<lparr>firestore := fs\<rparr>) req) = filter is_Respond (voice e req))
   \<and> (\<forall>fs. without_analytics (voice (e\<lparr>firestore := fs\<rparr>) req) = without_analytics (voice e req))
   \<and> (\<forall>d add. AnalyticsAdd d \<in> set (voice e req) \<and> firestore e = Some add \<and> \<not> add d
          \<longrightarrow> AnalyticsError \<in> set (voice e req))"
proof -
  obtain xs body tl where v: "voice e req = xs @ Respond (expected_status e req) body # tl"
     "list_all silent xs"
     "tl = [] \<or> (\<exists>d cust. tl = saveAnalytics e d \<and> customer_of e req = Some cust
                       \<and> subscriberEmail d = cust_email cust)"
    using voice_shape [of e req] by blast
  have tl: "tl = [] \<or> (\<exists>d. tl = saveAnalytics e d)"
    using v(3) by blast
  have "length (filter is_AnalyticsAdd tl) \<le> 1"
    using tl saveAnalytics_facts by auto
  then have one: "length (filter is_AnalyticsAdd (voice e req)) \<le> 1"
    using v(1) silent_facts [OF v(2)] by simp
  have order: "\<exists>st body. Respond st body \<in> set pre"
    if "voice e req = pre @ AnalyticsAdd d # post" for pre d post
    using respond_before_analytics [OF v(2), of "expected_status e req" body tl pre d post] that v(1)
    by auto
  have same: "filter is_Respond (voice (e\<lparr>firestore := fs\<rparr>) req) = filter is_Respond (voice e req)" for fs
    using fs_voice [where e = e and fs = fs and req = req] respond_na by metis
  have logged: "AnalyticsError \<in> set (voice e req)"
    if "AnalyticsAdd d \<in> set (voice e req)" "firestore e = Some add" "\<not> add d" for d add
  proof -
    have "AnalyticsAdd d \<notin> set xs"
      using v(2) by (auto simp: list_all_iff silent_def internal_def)
    then have "AnalyticsAdd d \<in> set tl"
      using that(1) v(1) by simp
    then obtain d' where "tl = saveAnalytics e d'" "AnalyticsAdd d \<in> set (saveAnalytics e d')"
      using tl by auto
    then have "AnalyticsError \<in> set tl"
      using that(2,3) by (auto simp: saveAnalytics_def split: if_splits)
    then show ?thesis using v(1) by simp
  qed
  show ?thesis
    using one order same fs_voice logged by blast
qed

theorem analytics_after_response_witness:
  "AnalyticsAdd (analytics_doc req_known ann ''es'' True (Some ''42'') (Some late_evening) None)
     \<in> set (voice env_analytics_down req_known)
   \<and> AnalyticsError \<in> set (voice env_analytics_down req_known)
   \<and> (\<exists>pre post st body.
         voice env_analytics_down req_known
           = pre @ AnalyticsAdd (analytics_doc req_known ann ''es'' True (Some ''42'') (Some late_evening) None) # post
         \<and> Respond st body \<in> set pre)
   \<and> length (filter is_AnalyticsAdd (voice env_analytics_down req_known)) \<le> 1
   \<and> filter is_Respond (voice env_analytics_down req_known) = filter is_Respond (voice env_full req_known)"
proof -
  let ?d = "analytics_doc req_known ann ''es'' True (Some ''42'') (Some late_evening) None"
  have added: "AnalyticsAdd ?d \<in> set (voice env_analytics_down req_known)"
    by (simp add: voice_def pipeline_def processResult_def bookAppointment_def translateText_def
      saveAnalytics_def step_defs request_defs js_defs example_defs env_analytics_down_def ann_def Let_def)
  have store: "firestore env_analytics_down = Some (\<lambda>d. False)"
    by (simp add: env_analytics_down_def)
  note inst = analytics_after_response [of env_analytics_down req_known]
  have logged: "AnalyticsError \<in> set (voice env_analytics_down req_known)"
    using inst added store by blast
  obtain pre post where split: "voice env_analytics_down req_known = pre @ AnalyticsAdd ?d # post"
    using split_list [OF added] by blast
  then have before: "\<exists>st body. Respond st body \<in> set pre"
    using inst by blast
  have once: "length (filter is_AnalyticsAdd (voice env_analytics_down req_known)) \<le> 1"
    using inst by blast
  have "filter is_Respond (voice (env_full\<lparr>firestore := Some (\<lambda>d. False)\<rparr>) req_known)
          = filter is_Respond (voice env_full req_known)"
    using analytics_after_response [of env_full req_known] by blast
  then have same: "filter is_Respond (voice env_analytics_down req_known) = filter is_Respond (voice env_full req_known)"
    by (simp add: env_analytics_down_def)
  show ?thesis
    using added logged split before once same by blast
qed

section \<open>The language of a request\<close>

lemma resolve_hint: "truthy hint \<Longrightarrow> detectLanguage e hint speech = ([], str_of hint)"
  by (simp add: detectLanguage_def split: option.splits)

lemma resolve_default:
  "\<not> truthy hint \<Longrightarrow> \<not> truthy speech \<or> translationClient e = None \<Longrightarrow>
     detectLanguage e hint speech = ([], ''en'')"
  by (auto simp: detectLanguage_def split: option.splits)

lemma resolve_lookup:
  "\<not> truthy hint \<Longrightarrow> truthy speech \<Longrightarrow> translationClient e = Some tc \<Longrightarrow>
     detectLanguage e hint speech = lookupOrDetect e tc (str_of speech)"
  by (simp add: detectLanguage_def)

lemma lookup_hit:
  "redis e = Some r \<Longrightarrow> redis_get r (cache_key t) = Inr (Some c) \<Longrightarrow> c \<noteq> [] \<Longrightarrow>
     lookupOrDetect e tc t = ([RedisGet (cache_key t)], c)"
  by (simp add: lookupOrDetect_def cache_key_def truthy_def str_of_def)

lemma lookup_read_fails:
  "redis e = Some r \<Longrightarrow> redis_get r (cache_key t) = Inl err \<Longrightarrow>
     lookupOrDetect e tc t = ([RedisGet (cache_key t)], ''en'')"
  by (simp add: lookupOrDetect_def cache_key_def)

lemma lookup_miss:
  "cache_miss e t \<Longrightarrow>
     lookupOrDetect e tc t = (cache_read e t @ fst (detectAndCache e tc t (cache_key t)),
                              snd (detectAndCache e tc t (cache_key t)))"
  by (simp add: lookupOrDetect_def cache_miss_def cache_read_def cache_key_def Let_def
      split: option.splits sum.splits)

lemma detect_fails:
  "detect tc t = Inl err \<Longrightarrow> detectAndCache e tc t k = ([Detect t], ''en'')"
  by (simp add: detectAndCache_def)

lemma detect_no_cache:
  "detect tc t = Inr l \<Longrightarrow> redis e = None \<Longrightarrow> detectAndCache e tc t k = ([Detect t], l)"
  by (simp add: detectAndCache_def)

lemma detect_and_store:
  "detect tc t = Inr l \<Longrightarrow> l \<noteq> [] \<Longrightarrow> redis e = Some r \<Longrightarrow>
     detectAndCache e tc t k =
       ([Detect t, RedisSet k l 3600], case redis_set r k l 3600 of Inr u \<Rightarrow> l | Inl err \<Rightarrow> ''en'')"
  by (simp add: detectAndCache_def split: sum.splits)

lemma detectAndCache_nonempty:
  "(\<forall>l. detect tc t = Inr l \<longrightarrow> l \<noteq> []) \<Longrightarrow> snd (detectAndCache e tc t k) \<noteq> []"
  by (simp add: detectAndCache_def split: sum.splits option.splits)

lemma lookupOrDetect_nonempty:
  "(\<forall>l. detect tc t = Inr l \<longrightarrow> l \<noteq> []) \<Longrightarrow> snd (lookupOrDetect e tc t) \<noteq> []"
  using detectAndCache_nonempty [of tc t e "''lang:'' @ t"]
  by (simp add: lookupOrDetect_def Let_def truthy_def str_of_def split: sum.splits option.splits)

lemma detectLanguage_nonempty:
  "(\<forall>tc l. translationClient e = Some tc \<and> detect tc (str_of speech) = Inr l \<longrightarrow> l \<noteq> []) \<Longrightarrow>
     snd (detectLanguage e hint speech) \<noteq> []"
  using lookupOrDetect_nonempty [of _ "str_of speech" e]
  by (simp add: detectLanguage_def truthy_def str_of_def split: option.splits)

text \<open>
  C3 (as stated, refuted). With no translation client configured the cache is not read:
  a text whose language is cached as Spanish resolves to English. When the write to the
  cache fails after a successful detection of Spanish, the result is English. When the
  read of the cache fails, the detector is not called. With no cache configured, the
  detected language is returned and stored nowhere.
\<close>

theorem language_resolution_counterexample:
  "redis_get redis_hit_es (cache_key ''hola'') = Inr (Some ''es'')
   \<and> detectLanguage env_no_detector None (Some ''hola'') = ([], ''en'')
   \<and> detect tc_es ''hola'' = Inr ''es''
   \<and> detectLanguage env_cache_readonly None (Some ''hola'')
       = ([RedisGet ''lang:hola'', Detect ''hola'', RedisSet ''lang:hola'' ''es'' 3600], ''en'')
   \<and> detectLanguage env_cache_down None (Some ''hola'') = ([RedisGet ''lang:hola''], ''en'')
   \<and> detectLanguage env_no_cache None (Some ''hola'') = ([Detect ''hola''], ''es'')"
  by (simp add: env_no_detector_def env_cache_readonly_def env_cache_down_def env_no_cache_def
      redis_get_fails_def cache_key_def step_defs js_defs example_defs Let_def)

text \<open>
  C3 (amended). A non-empty hint is returned and neither the cache nor the detector is
  called. Otherwise, without a speech text or without a configured detector, the result is
  \<open>en\<close>, again without any call. Otherwise a non-empty cached language for the text is
  returned without detection; a failing read of the cache gives \<open>en\<close> without detection.
  Otherwise the detector is called: when it fails the result is \<open>en\<close> and nothing is
  written to the cache; when it reports a non-empty language, that language is written
  to the cache, if there is one, with a time to live of 3600 seconds and is returned,
  unless the write fails, which gives \<open>en\<close>. The result is not the empty string as long
  as the detector reports no empty language.
\<close>

theorem language_resolution_precedence:
  "(truthy hint \<longrightarrow> detectLanguage e hint speech = ([], str_of hint))
   \<and> (\<not> truthy hint \<and> (\<not> truthy speech \<or> translationClient e = None)
        \<longrightarrow> detectLanguage e hint speech = ([], ''en''))
   \<and> (\<forall>tc. \<not> truthy hint \<and> truthy speech \<and> translationClient e = Some tc \<longrightarrow>
         (\<forall>r c. redis e = Some r \<and> redis_get r (cache_key (str_of speech)) = Inr (Some c) \<and> c \<noteq> []
            \<longrightarrow> detectLanguage e hint speech = ([RedisGet (cache_key (str_of speech))], c))
       \<and> (\<forall>r err. redis e = Some r \<and> redis_get r (cache_key (str_of speech)) = Inl err
            \<longrightarrow> detectLanguage e hint speech = ([RedisGet (cache_key (str_of speech))], ''en''))
       \<and> (\<forall>err. cache_miss e (str_of speech) \<and> detect tc (str_of speech) = Inl err
            \<longrightarrow> detectLanguage e hint speech
                  = (cache_read e (str_of speech) @ [Detect (str_of speech)], ''en''))
       \<and> (\<forall>l. cache_miss e (str_of speech) \<and> detect tc (str_of speech) = Inr l \<and> l \<noteq> [] \<and> redis e = None
            \<longrightarrow> detectLanguage e hint speech = ([Detect (str_of speech)], l))
       \<and> (\<forall>l r. cache_miss e (str_of speech) \<and> detect tc (str_of speech) = Inr l \<and> l \<noteq> [] \<and> redis e = Some r
            \<longrightarrow> detectLanguage e hint speech
                  = ([RedisGet (cache_key (str_of speech)), Detect (str_of speech),
                      RedisSet (cache_key (str_of speech)) l 3600],
                     case redis_set r (cache_key (str_of speech)) l 3600 of Inr u \<Rightarrow> l | Inl err \<Rightarrow> ''en'')))
   \<and> ((\<forall>tc l. translationClient e = Some tc \<and> detect tc (str_of speech) = Inr l \<longrightarrow> l \<noteq> [])
        \<longrightarrow> snd (detectLanguage e hint speech) \<noteq> [])"
proof -
  let ?s = "str_of speech"
  have p1: "truthy hint \<longrightarrow> detectLanguage e hint speech = ([], str_of hint)"
    using resolve_hint by blast
  have p2: "\<not> truthy hint \<and> (\<not> truthy speech \<or> translationClient e = None)
        \<longrightarrow> detectLanguage e hint speech = ([], ''en'')"
    using resolve_default by blast
  have p3: "(\<forall>r c. redis e = Some r \<and> redis_get r (cache_key ?s) = Inr (Some c) \<and> c \<noteq> []
            \<longrightarrow> detectLanguage e hint speech = ([RedisGet (cache_key ?s)], c))
       \<and> (\<forall>r err. redis e = Some r \<and> redis_get r (cache_key ?s) = Inl err
            \<longrightarrow> detectLanguage e hint speech = ([RedisGet (cache_key ?s)], ''en''))
       \<and> (\<forall>err. cache_miss e ?s \<and> detect tc ?s = Inl err
            \<longrightarrow> detectLanguage e hint speech = (cache_read e ?s @ [Detect ?s], ''en''))
       \<and> (\<forall>l. cache_miss e ?s \<and> detect tc ?s = Inr l \<and> l \<noteq> [] \<and> redis e = None
            \<longrightarrow> detectLanguage e hint speech = ([Detect ?s], l))
       \<and> (\<forall>l r. cache_miss e ?s \<and> detect tc ?s = Inr l \<and> l \<noteq> [] \<and> redis e = Some r
            \<longrightarrow> detectLanguage e hint speech
                  = ([RedisGet (cache_key ?s), Detect ?s, RedisSet (cache_key ?s) l 3600],
                     case redis_set r (cache_key ?s) l 3600 of Inr u \<Rightarrow> l | Inl err \<Rightarrow> ''en''))"
    if h: "\<not> truthy hint \<and> truthy speech \<and> translationClient e = Some tc" for tc
  proof -
    have d: "detectLanguage e hint speech = lookupOrDetect e tc ?s"
      using h resolve_lookup by blast
    have a: "\<forall>r c. redis e = Some r \<and> redis_get r (cache_key ?s) = Inr (Some c) \<and> c \<noteq> []
            \<longrightarrow> detectLanguage e hint speech = ([RedisGet (cache_key ?s)], c)"
      using d lookup_hit by simp
    have b: "\<forall>r err. redis e = Some r \<and> redis_get r (cache_key ?s) = Inl err
            \<longrightarrow> detectLanguage e hint speech = ([RedisGet (cache_key ?s)], ''en'')"
      using d lookup_read_fails by simp
    have c: "\<forall>err. cache_miss e ?s \<and> detect tc ?s = Inl err
            \<longrightarrow> detectLanguage e hint speech = (cache_read e ?s @ [Detect ?s], ''en'')"
      using d lookup_miss [of e ?s tc] detect_fails [of tc ?s _ e] by simp
    have f: "\<forall>l. cache_miss e ?s \<and> detect tc ?s = Inr l \<and> l \<noteq> [] \<and> redis e = None
            \<longrightarrow> detectLanguage e hint speech = ([Detect ?s], l)"
      using d lookup_miss [of e ?s tc] detect_no_cache [of tc ?s _ e]
      by (simp add: cache_read_def)
    have g: "\<forall>l r. cache_miss e ?s \<and> detect tc ?s = Inr l \<and> l \<noteq> [] \<and> redis e = Some r
            \<longrightarrow> detectLanguage e hint speech
                  = ([RedisGet (cache_key ?s), Detect ?s, RedisSet (cache_key ?s) l 3600],
                     case redis_set r (cache_key ?s) l 3600 of Inr u \<Rightarrow> l | Inl err \<Rightarrow> ''en'')"
      using d lookup_miss [of e ?s tc] detect_and_store [of tc ?s _ e]
      by (simp add: cache_read_def)
    show ?thesis using a b c f g by blast
  qed
  have p4: "(\<forall>tc l. translationClient e = Some tc \<and> detect tc ?s = Inr l \<longrightarrow> l \<noteq> [])
        \<longrightarrow> snd (detectLanguage e hint speech) \<noteq> []"
    using detectLanguage_nonempty by blast
  show ?thesis
    using p1 p2 p3 p4 by blast
qed

theorem language_resolution_precedence_witness:
  "detectLanguage env_full (Some ''fr'') (Some ''hola'') = ([], ''fr'')
   \<and> detectLanguage env_full None None = ([], ''en'')
   \<and> detectLanguage (env_full\<lparr>redis := Some redis_hit_es\<rparr>) None (Some ''hola'')
       = ([RedisGet ''lang:hola''], ''es'')
   \<and> detectLanguage env_full None (Some ''hola'')
       = ([RedisGet ''lang:hola'', Detect ''hola'', RedisSet ''lang:hola'' ''es'' 3600], ''es'')
   \<and> detectLanguage (env_full\<lparr>translationClient := Some tc_down\<rparr>) None (Some ''hola'')
       = ([RedisGet ''lang:hola'', Detect ''hola''], ''en'')
   \<and> snd (detectLanguage env_full None (Some ''hola'')) \<noteq> []"
  using language_resolution_precedence [of "Some ''fr''" env_full "Some ''hola''"]
    language_resolution_precedence [of None env_full None]
    language_resolution_precedence [of None "env_full\<lparr>redis := Some redis_hit_es\<rparr>" "Some ''hola''"]
    language_resolution_precedence [of None env_full "Some ''hola''"]
    language_resolution_precedence [of None "env_full\<lparr>translationClient := Some tc_down\<rparr>" "Some ''hola''"]
  by (simp add: cache_key_def cache_miss_def cache_read_def js_defs example_defs)

section \<open>Requests served without a database\<close>

lemma bookAppointment_posts:
  "truthy (EASY_APPOINTMENTS_URL e) \<Longrightarrow> truthy (EASY_APPOINTMENTS_API_KEY e) \<Longrightarrow>
     SchedulerPost (appointmentRequest e req cust start) \<in> set (fst (bookAppointment e req cust lang start))"
  by (simp add: bookAppointment_def Let_def split: sum.splits)

lemma processResult_posts:
  "truthy (EASY_APPOINTMENTS_URL e) \<Longrightarrow> truthy (EASY_APPOINTMENTS_API_KEY e) \<Longrightarrow>
     SchedulerPost (appointmentRequest e req cust start) \<in> set (processResult e req cust lang (Some start))"
  using bookAppointment_posts [of e req cust start lang]
  by (simp add: processResult_def split: option.splits)

lemma shape_members:
  assumes "list_all silent xs"
  shows "(AnalyticsAdd a \<in> set (xs @ Respond st body # saveAnalytics e d) \<longrightarrow> a = d)
     \<and> (SchedulerPost r \<in> set (xs @ Respond st body # saveAnalytics e d)
          \<longrightarrow> SchedulerPost r \<in> set (filter is_SchedulerPost xs))
     \<and> statuses (xs @ Respond st body # saveAnalytics e d) = [st]"
proof -
  have "AnalyticsAdd a \<notin> set xs"
    using assms by (auto simp: list_all_iff silent_def internal_def)
  moreover have "saveAnalytics e d = [] \<or> saveAnalytics e d = [AnalyticsAdd d]
      \<or> saveAnalytics e d = [AnalyticsAdd d, AnalyticsError]"
    by (rule saveAnalytics_cases)
  ultimately show ?thesis
    using silent_facts [OF assms] by (auto simp: statuses_append)
qed

text \<open>
  C10. When no database is configured, a request that carries a caller number is not
  answered at the customer step: it runs steps 4 to 8 with the fixed customer
  \<open>demo_customer\<close> / \<open>demo@example.com\<close>, no query is made, the status is that of
  the booking step, every scheduling request and every analytics document carries the
  demo customer, and a parsed start reaches the scheduler when it is configured.
\<close>

theorem database_disabled_uses_demo_customer:
  "db e = None \<and> truthy (phoneNumber req) \<Longrightarrow>
     voice e req = pipeline e req demo_customer
     \<and> filter is_DbQuery (voice e req) = []
     \<and> statuses (voice e req)
         = [status7 e req demo_customer (resolvedLanguage e req) (appointmentStart_of e req)]
     \<and> (\<forall>r. SchedulerPost r \<in> set (voice e req) \<longrightarrow> ap_customerId r = ''demo_customer'')
     \<and> (\<forall>a. AnalyticsAdd a \<in> set (voice e req) \<longrightarrow> subscriberEmail a = ''demo@example.com'')
     \<and> (\<forall>start. appointmentStart_of e req = Some start
            \<and> truthy (EASY_APPOINTMENTS_URL e) \<and> truthy (EASY_APPOINTMENTS_API_KEY e)
          \<longrightarrow> SchedulerPost (appointmentRequest e req demo_customer start) \<in> set (voice e req))"
proof -
  assume a: "db e = None \<and> truthy (phoneNumber req)"
  let ?lang = "resolvedLanguage e req" and ?st = "appointmentStart_of e req"
  have v: "voice e req = pipeline e req demo_customer"
    using a by (simp add: voice_def getCustomer_def)
  obtain xs body d where p: "pipeline e req demo_customer
        = xs @ Respond (status7 e req demo_customer ?lang ?st) body # saveAnalytics e d"
     "subscriberEmail d = cust_email demo_customer" "list_all silent xs" "filter is_DbQuery xs = []"
     "filter is_SchedulerPost xs = []
         \<or> (\<exists>start. ?st = Some start
               \<and> filter is_SchedulerPost xs = [SchedulerPost (appointmentRequest e req demo_customer start)])"
    using pipeline_shape [of e req demo_customer] by blast
  note m = shape_members [OF p(3), of _ "status7 e req demo_customer ?lang ?st" body e d]
  have nodb: "filter is_DbQuery (voice e req) = []"
    using v p(1,4) by (simp add: saveAnalytics_def split: option.splits)
  have st: "statuses (voice e req) = [status7 e req demo_customer ?lang ?st]"
    using v p(1) m by simp
  have cust: "ap_customerId r = ''demo_customer''" if "SchedulerPost r \<in> set (voice e req)" for r
  proof -
    have "SchedulerPost r \<in> set (filter is_SchedulerPost xs)"
      using that v p(1) shape_members [OF p(3), of _ "status7 e req demo_customer ?lang ?st" body e d r] by simp
    then obtain start where "r = appointmentRequest e req demo_customer start"
      using p(5) by fastforce
    then show ?thesis
      by (simp add: appointmentRequest_def demo_customer_def Let_def)
  qed
  have email: "subscriberEmail a = ''demo@example.com''" if "AnalyticsAdd a \<in> set (voice e req)" for a
  proof -
    have "a = d"
      using that v p(1) shape_members [OF p(3), of a "status7 e req demo_customer ?lang ?st" body e d] by simp
    then show ?thesis using p(2) by (simp add: demo_customer_def)
  qed
  have books: "SchedulerPost (appointmentRequest e req demo_customer start) \<in> set (voice e req)"
    if "?st = Some start" "truthy (EASY_APPOINTMENTS_URL e)" "truthy (EASY_APPOINTMENTS_API_KEY e)" for start
    using processResult_posts [OF that(2,3), of req demo_customer start ?lang] that(1) v
    by (simp add: pipeline_def)
  show ?thesis
    using v nodb st cust email books by blast
qed

theorem database_disabled_uses_demo_customer_witness:
  "db env_no_db = None \<and> truthy (phoneNumber req_known)
   \<and> voice env_no_db req_known = pipeline env_no_db req_known demo_customer
   \<and> statuses (voice env_no_db req_known) = [200]
   \<and> SchedulerPost (appointmentRequest env_no_db req_known demo_customer late_evening)
       \<in> set (voice env_no_db req_known)"
proof -
  have h: "db env_no_db = None \<and> truthy (phoneNumber req_known)"
    by (simp add: request_defs js_defs example_defs)
  have start: "appointmentStart_of env_no_db req_known = Some late_evening"
    by (simp add: step_defs request_defs js_defs example_defs Let_def)
  have cfg: "truthy (EASY_APPOINTMENTS_URL env_no_db)" "truthy (EASY_APPOINTMENTS_API_KEY env_no_db)"
    by (simp_all add: js_defs example_defs)
  have ok: "status7 env_no_db req_known demo_customer (resolvedLanguage env_no_db req_known)
              (appointmentStart_of env_no_db req_known) = 200"
    by (simp add: status7_def booking_throws_def step_defs request_defs js_defs example_defs Let_def)
  note inst = database_disabled_uses_demo_customer [OF h]
  have same: "voice env_no_db req_known = pipeline env_no_db req_known demo_customer"
    using inst by blast
  have "statuses (voice env_no_db req_known)
          = [status7 env_no_db req_known demo_customer (resolvedLanguage env_no_db req_known)
               (appointmentStart_of env_no_db req_known)]"
    using inst by blast
  then have st: "statuses (voice env_no_db req_known) = [200]"
    by (simp only: ok)
  have posted: "SchedulerPost (appointmentRequest env_no_db req_known demo_customer late_evening)
       \<in> set (voice env_no_db req_known)"
    using inst start cfg by blast
  show ?thesis
    using h same st posted by blast
qed

section \<open>The end of the appointment\<close>

text \<open>
  C5 (the code at the failing inputs). For a start at 23:45 and the default duration, the
  request sent to the scheduler ends at 00:15 of the start's own day, before it starts: the
  end time wraps around midnight and the end date is the start date. With
  \<^verbatim>\<open>DEFAULT_APPOINTMENT_DURATION=30\<close> set in the environment the duration is the string
  \<^verbatim>\<open>"30"\<close>, \<^verbatim>\<open>minute + minutesToAdd\<close> concatenates, and a start at 10:15 ends at 11:30.
\<close>

theorem end_time_stays_on_start_day:
  "ap_start (appointmentRequest env_full req_known ann late_evening)
     = \<lparr>dt_date = 20000, dt_time = ''23:45:00''\<rparr>
   \<and> ap_end (appointmentRequest env_full req_known ann late_evening)
     = \<lparr>dt_date = 20000, dt_time = ''00:15:00''\<rparr>
   \<and> ap_start (appointmentRequest (env_full\<lparr>DEFAULT_APPOINTMENT_DURATION := Some 30\<rparr>) req_known ann mid_morning)
     = \<lparr>dt_date = 20000, dt_time = ''10:15:00''\<rparr>
   \<and> ap_end (appointmentRequest (env_full\<lparr>DEFAULT_APPOINTMENT_DURATION := Some 30\<rparr>) req_known ann mid_morning)
     = \<lparr>dt_date = 20000, dt_time = ''11:30:00''\<rparr>"
  by (simp add: appointmentRequest_def env_full_def late_evening_def mid_morning_def utc_day_def
      local_minute_of_day_def hhmm_def two_digits_def dec_string.simps digit_char_def addMinutesToTime_def split_def
      minutesToAdd_def to_number_def is_digit_def dec_def js_plus_def js_to_number_def Let_def)

section \<open>Translation\<close>

text \<open>
  C7. \<open>translateText\<close> returns its input unchanged, without calling the provider, when
  the translation client is not configured, the text is empty or the source language is
  the target language; when the provider fails it returns the input unchanged.
\<close>

theorem translateText_noop:
  "(translationClient e = None \<or> text = [] \<or> sourceLang = targetLang
      \<longrightarrow> translateText e text sourceLang targetLang = ([], text))
   \<and> (\<forall>tc err. translationClient e = Some tc \<and> translate tc text sourceLang targetLang = Inl err
      \<longrightarrow> snd (translateText e text sourceLang targetLang) = text)"
  by (auto simp: translateText_def split: option.splits)

theorem translateText_noop_witness:
  "translateText env_full ''hola'' ''es'' ''es'' = ([], ''hola'')
   \<and> translateText env_full [] ''es'' ''en'' = ([], [])
   \<and> translateText (env_full\<lparr>translationClient := None\<rparr>) ''hola'' ''es'' ''en'' = ([], ''hola'')
   \<and> snd (translateText (env_full\<lparr>translationClient := Some tc_down\<rparr>) ''hola'' ''es'' ''en'') = ''hola''"
proof -
  have down: "translationClient (env_full\<lparr>translationClient := Some tc_down\<rparr>) = Some tc_down
      \<and> translate tc_down ''hola'' ''es'' ''en'' = Inl ''translate failed''"
    by (simp add: tc_down_def)
  show ?thesis
    using translateText_noop [of env_full "''hola''" "''es''" "''es''"]
      translateText_noop [of env_full "[]" "''es''" "''en''"]
      translateText_noop [of "env_full\<lparr>translationClient := None\<rparr>" "''hola''" "''es''" "''en''"]
      translateText_noop [of "env_full\<lparr>translationClient := Some tc_down\<rparr>" "''hola''" "''es''" "''en''"]
      down
    by simp
qed


end
